theory Spec2Isabelle
  imports Main
begin

section \<open>Exceptions\<close>

text \<open>
  Python exceptions are values. An exception carries its class, its \<open>args\<close> tuple and
  its \<open>__cause__\<close> (set by \<open>raise ... from ...\<close>). The classes are the ones the
  dispatch pipeline of \<open>fondat.http\<close> and \<open>fondat.resource\<close> names or can meet; they are
  flat (no class here is a subclass of another one listed), except for the two
  groupings \<open>is_Error\<close> and \<open>is_Exception\<close> below. \<open>args\<close> are strings.
\<close>

datatype exn_class =
    BadRequestError
  | UnauthorizedError
  | ForbiddenError
  | NotFoundError
  | MethodNotAllowedError
  | InternalServerError
  | NameError
  | TypeError
  | ValueError
  | KeyError
  | IndexError
  | AttributeError
  | RuntimeError
  | CancelledError
  | KeyboardInterrupt

datatype exn = Exn (cls: exn_class) (args: "string list") (cause: "exn option")

text \<open>
  Modelled from the spec: \<open>fondat.error\<close> is not part of the sources. Its base class
  \<open>fondat.error.Error\<close> heads the declared error taxonomy of the spec (BadRequest,
  NotFound, MethodNotAllowed, Unauthorized, Forbidden, InternalServerError).
\<close>

fun is_Error :: "exn_class \<Rightarrow> bool" where
  "is_Error BadRequestError = True"
| "is_Error UnauthorizedError = True"
| "is_Error ForbiddenError = True"
| "is_Error NotFoundError = True"
| "is_Error MethodNotAllowedError = True"
| "is_Error InternalServerError = True"
| "is_Error _ = False"

text \<open>
  Python's built-in hierarchy: \<open>asyncio.CancelledError\<close> and \<open>KeyboardInterrupt\<close> derive
  from \<open>BaseException\<close> only; every other class above derives from \<open>Exception\<close>.
\<close>

fun is_Exception :: "exn_class \<Rightarrow> bool" where
  "is_Exception CancelledError = False"
| "is_Exception KeyboardInterrupt = False"
| "is_Exception _ = True"

text \<open>
  Reading a global name that the module binds nowhere raises \<open>NameError\<close>. Neither
  module imports, defines or assigns the name it reads at the two places below, and
  neither name is a Python builtin.
\<close>

definition undefined_name :: "string \<Rightarrow> exn" where
  "undefined_name n = Exn NameError [''name '' @ [CHR 0x27] @ n @ [CHR 0x27] @ '' is not defined''] None"

section \<open>Authorization (\<open>fondat.resource.authorize\<close>)\<close>

text \<open>
  A security requirement is the outcome of awaiting its \<open>authorize()\<close>: \<open>None\<close> when it
  returns, \<open>Some e\<close> when it raises \<open>e\<close>.
\<close>

type_synonym requirement = "exn option"

text \<open>
  The loop of \<open>authorize\<close>, with the local variable \<open>exception\<close> as accumulator. In the
  \<open>except ForbiddenError\<close> handler the condition
  \<open>not isinstance(exception, ForbiddenException)\<close> reads the global
  \<open>ForbiddenException\<close>, which \<open>fondat/resource.py\<close> never binds: the handler raises
  \<open>NameError\<close> before its assignment, and an exception raised inside a handler leaves the
  \<open>try\<close> statement. An exception object is truthy, so \<open>not exception\<close> tests for \<open>None\<close>.
\<close>

fun authorize_loop :: "exn option \<Rightarrow> requirement list \<Rightarrow> exn + unit" where
  "authorize_loop exception [] =
     (case exception of None \<Rightarrow> Inr () | Some e \<Rightarrow> Inl e)"
| "authorize_loop exception (None # rest) = Inr ()"
| "authorize_loop exception (Some e # rest) =
     (if cls e = ForbiddenError then Inl (undefined_name ''ForbiddenException'')
      else if cls e = UnauthorizedError then
        authorize_loop (case exception of None \<Rightarrow> Some e | Some x \<Rightarrow> Some x) rest
      else Inl e)"

text \<open>\<open>security or ()\<close>: an absent requirement list is the empty one.\<close>

definition authorize :: "requirement list option \<Rightarrow> exn + unit" where
  "authorize security =
     authorize_loop None (case security of None \<Rightarrow> [] | Some rs \<Rightarrow> rs)"

section \<open>HTTP messages (\<open>fondat.http\<close>)\<close>

type_synonym bytes = string

text \<open>
  Modelled from the spec: \<open>fondat.types.Stream\<close> is not part of the sources. A body is
  a sequence of byte chunks with a declared content type and a known or unknown total
  length.
\<close>

record stream =
  chunks :: "bytes list"
  content_type :: string
  content_length :: "nat option"

text \<open>
  \<open>Headers\<close>, \<open>Cookies\<close> and \<open>Query\<close> are multi-valued dictionaries: lists of pairs in
  insertion order. \<open>Message\<close> is the base class of \<open>Request\<close> and \<open>Response\<close>.
\<close>

type_synonym multidict = "(string \<times> string) list"

text \<open>
  \<open>str.lower()\<close> on ASCII text (the strings here are byte strings), \<open>str.split(sep)\<close>
  for a one-character separator, \<open>x in s\<close>, \<open>str.startswith\<close>, \<open>str.rstrip(c)\<close> and
  \<open>str(n)\<close> for a natural number.
\<close>

definition lower_char :: "char \<Rightarrow> char" where
  "lower_char c =
     (case map_of (zip ''ABCDEFGHIJKLMNOPQRSTUVWXYZ'' ''abcdefghijklmnopqrstuvwxyz'') c of
        Some d \<Rightarrow> d
      | None \<Rightarrow> c)"

definition lower :: "string \<Rightarrow> string" where
  "lower s = map lower_char s"

fun split_on :: "char \<Rightarrow> string \<Rightarrow> string list" where
  "split_on sep [] = [[]]"
| "split_on sep (c # cs) =
     (if c = sep then [] # split_on sep cs
      else (case split_on sep cs of w # ws \<Rightarrow> (c # w) # ws | [] \<Rightarrow> [[c]]))"

fun occurs_in :: "string \<Rightarrow> string \<Rightarrow> bool" where
  "occurs_in x [] = (x = [])"
| "occurs_in x (c # cs) = (take (length x) (c # cs) = x \<or> occurs_in x cs)"

definition startswith :: "string \<Rightarrow> string \<Rightarrow> bool" where
  "startswith s p = (take (length p) s = p)"

definition rstrip :: "char \<Rightarrow> string \<Rightarrow> string" where
  "rstrip c s = rev (dropWhile (\<lambda>x. x = c) (rev s))"

definition digit :: "nat \<Rightarrow> char" where
  "digit n = ''0123456789'' ! n"

fun str_nat :: "nat \<Rightarrow> string" where
  "str_nat n = (if n < 10 then [digit n] else str_nat (n div 10) @ [digit (n mod 10)])"

declare str_nat.simps [simp del]

text \<open>
  \<open>MultiDict.get(key)\<close> is the first value stored under the key; \<open>CIMultiDict\<close> compares
  keys without regard to case, and \<open>d[key] = value\<close> replaces what it held under the key.
\<close>

definition multidict_get :: "multidict \<Rightarrow> string \<Rightarrow> string option" where
  "multidict_get d key = map_of d key"

definition cimultidict_get :: "multidict \<Rightarrow> string \<Rightarrow> string option" where
  "cimultidict_get d key = map_of (map (\<lambda>(k, v). (lower k, v)) d) (lower key)"

definition cimultidict_setitem :: "multidict \<Rightarrow> string \<Rightarrow> string \<Rightarrow> multidict" where
  "cimultidict_setitem d key v = filter (\<lambda>(k, _). lower k \<noteq> lower key) d @ [(key, v)]"

text \<open>
  The field \<open>req_method\<close> is \<open>Request.method\<close>. A \<open>Response()\<close> starts with status 200 and
  nothing else.
\<close>

record message =
  headers :: multidict
  cookies :: multidict
  body :: "stream option"

record request = message +
  req_method :: string
  path :: string
  version :: string
  query :: multidict

record response = message +
  status :: nat

definition Response :: response where
  "Response = \<lparr>headers = [], cookies = [], body = None, status = 200\<rparr>"

text \<open>
  Modelled from the spec: \<open>fondat.types.BytesStream\<close> is not part of the sources. It is
  the body made of one chunk of bytes, whose length is known.
\<close>

definition BytesStream :: "bytes \<Rightarrow> string \<Rightarrow> stream" where
  "BytesStream content ctype =
     \<lparr>chunks = [content], content_type = ctype, content_length = Some (length content)\<rparr>"

section \<open>The filter chain (\<open>Chain.handle\<close>)\<close>

text \<open>
  A filter is called with the request object, which it shares with the chain and may
  mutate: every step takes the request as it is and returns it as it leaves it.

  An asynchronous generator filter runs, on \<open>__anext__()\<close>, to its first \<open>yield\<close>
  (\<open>NextYield v k\<close>: \<open>v\<close> the yielded value, \<open>k\<close> the suspended generator), or ends
  without yielding (\<open>NextStop\<close>: \<open>StopAsyncIteration\<close>), or raises. The suspended
  generator, on \<open>asend(response)\<close>, yields again, ends, or raises. A yielded or returned
  value is tested for truth only: \<open>None\<close> stands for every falsy value.
\<close>

datatype send_result = SendYield "response option" | SendStop | SendRaise exn

type_synonym suspended = "request \<Rightarrow> response option \<Rightarrow> request \<times> send_result"

datatype next_result = NextYield "response option" suspended | NextStop | NextRaise exn

text \<open>
  \<open>f(request)\<close> is an asynchronous generator, a coroutine, or neither of them (then the
  call itself ran the body of \<open>f\<close>, and the chain ignores what it returned).
\<close>

datatype filter =
    AsyncGen "request \<Rightarrow> request \<times> next_result"
  | Coroutine "request \<Rightarrow> request \<times> (exn + response option)"
  | Neither "request \<Rightarrow> request \<times> exn option"

text \<open>
  The rewind list holds the suspended generators in the order of \<open>rewind.append\<close>; each
  is kept with the position of its filter in \<open>self.filters\<close>, which stands for the
  identity of the generator object.
\<close>

type_synonym rewind = "(nat \<times> suspended) list"

text \<open>
  The first loop of \<open>Chain.handle\<close>: \<open>i\<close> is the position of the next filter, \<open>rw\<close> the
  rewind list so far. It ends with the local \<open>response\<close> (a response on \<open>break\<close>,
  \<open>None\<close> when the filters are exhausted) and the rewind list, or with the exception a
  filter raised.
\<close>

fun pre_phase ::
  "filter list \<Rightarrow> nat \<Rightarrow> request \<Rightarrow> rewind \<Rightarrow> request \<times> (exn + response option \<times> rewind)" where
  "pre_phase [] i q rw = (q, Inr (None, rw))"
| "pre_phase (AsyncGen anext # fs) i q rw =
     (case anext q of
        (q', NextYield (Some r) k) \<Rightarrow> (q', Inr (Some r, rw))
      | (q', NextYield None k) \<Rightarrow> pre_phase fs (Suc i) q' (rw @ [(i, k)])
      | (q', NextStop) \<Rightarrow> pre_phase fs (Suc i) q' rw
      | (q', NextRaise e) \<Rightarrow> (q', Inl e))"
| "pre_phase (Coroutine run # fs) i q rw =
     (case run q of
        (q', Inr (Some r)) \<Rightarrow> (q', Inr (Some r, rw))
      | (q', Inr None) \<Rightarrow> pre_phase fs (Suc i) q' rw
      | (q', Inl e) \<Rightarrow> (q', Inl e))"
| "pre_phase (Neither call # fs) i q rw =
     (case call q of
        (q', None) \<Rightarrow> pre_phase fs (Suc i) q' rw
      | (q', Some e) \<Rightarrow> (q', Inl e))"

text \<open>
  The second loop, over \<open>reversed(rewind)\<close>. Beside the request and the outcome it
  returns the call log of the loop: one entry per \<open>asend\<close> call, in call order, with the
  position of the resumed filter, the response sent to it and what the generator did.
  The log is an observation of the loop; nothing the loop computes reads it.
\<close>

type_synonym resume_log = "(nat \<times> response option \<times> send_result) list"

fun rewind_loop ::
  "rewind \<Rightarrow> request \<Rightarrow> response option \<Rightarrow> request \<times> (exn + response option) \<times> resume_log" where
  "rewind_loop [] q response = (q, Inr response, [])"
| "rewind_loop ((i, k) # ks) q response =
     (case k q response of
        (q', SendYield (Some r)) \<Rightarrow>
          (case rewind_loop ks q' (Some r) of
             (q'', out, log) \<Rightarrow> (q'', out, (i, response, SendYield (Some r)) # log))
      | (q', SendYield None) \<Rightarrow>
          (case rewind_loop ks q' response of
             (q'', out, log) \<Rightarrow> (q'', out, (i, response, SendYield None) # log))
      | (q', SendStop) \<Rightarrow>
          (case rewind_loop ks q' response of
             (q'', out, log) \<Rightarrow> (q'', out, (i, response, SendStop) # log))
      | (q', SendRaise e) \<Rightarrow> (q', Inl e, [(i, response, SendRaise e)]))"

text \<open>
  A handler takes the request and returns a response (or any other value: \<open>None\<close> when
  falsy) or raises.
\<close>

type_synonym handler = "request \<Rightarrow> request \<times> (exn + response option)"

record chain =
  filters :: "filter list"
  handler :: handler

definition handle :: "chain \<Rightarrow> request \<Rightarrow> request \<times> (exn + response option) \<times> resume_log" where
  "handle self q =
     (case pre_phase (filters self) 0 q [] of
        (q1, Inl e) \<Rightarrow> (q1, Inl e, [])
      | (q1, Inr (response, rw)) \<Rightarrow>
          (case (case response of None \<Rightarrow> handler self q1 | Some r \<Rightarrow> (q1, Inr (Some r))) of
             (q2, Inl e) \<Rightarrow> (q2, Inl e, [])
           | (q2, Inr response2) \<Rightarrow> rewind_loop (rev rw) q2 response2))"

text \<open>
  Vocabulary for the properties of the chain. \<open>enter_all fs i q\<close> enters the filters of
  \<open>fs\<close> in turn from request \<open>q\<close>, the first at position \<open>i\<close>: when every one is an
  asynchronous generator that yields no value at its first \<open>yield\<close>, it gives the request
  as they leave it and their suspended generators with their positions, in order of
  entry; otherwise it gives \<open>None\<close>. \<open>current_after\<close> is the current response after a
  resumed filter answered; \<open>fed_in_turn cur log\<close> says that each logged call was sent the
  response current at that moment, starting from \<open>cur\<close>.
\<close>

fun enter_all :: "filter list \<Rightarrow> nat \<Rightarrow> request \<Rightarrow> (request \<times> rewind) option" where
  "enter_all [] i q = Some (q, [])"
| "enter_all (AsyncGen anext # fs) i q =
     (case anext q of
        (q', NextYield None k) \<Rightarrow>
          (case enter_all fs (Suc i) q' of
             Some (qn, ks) \<Rightarrow> Some (qn, (i, k) # ks)
           | None \<Rightarrow> None)
      | _ \<Rightarrow> None)"
| "enter_all (_ # fs) i q = None"

fun current_after :: "response option \<Rightarrow> send_result \<Rightarrow> response option" where
  "current_after cur (SendYield (Some r)) = Some r"
| "current_after cur _ = cur"

fun fed_in_turn :: "response option \<Rightarrow> resume_log \<Rightarrow> bool" where
  "fed_in_turn cur [] = True"
| "fed_in_turn cur ((i, sent, answer) # log) =
     (sent = cur \<and> fed_in_turn (current_after cur answer) log)"

text \<open>
  \<open>calls_in_turn ks q cur log\<close> ties the log to the calls themselves: the logged calls
  address the generators of \<open>ks\<close> in the order of \<open>ks\<close>, and each entry holds the
  response current at that moment and what the generator answers when it is sent that
  response, from the request as the calls before it left it.
\<close>

fun calls_in_turn :: "rewind \<Rightarrow> request \<Rightarrow> response option \<Rightarrow> resume_log \<Rightarrow> bool" where
  "calls_in_turn ks q cur [] = True"
| "calls_in_turn [] q cur (entry # log) = False"
| "calls_in_turn ((i, k) # ks) q cur ((j, sent, answer) # log) =
     (j = i \<and> sent = cur \<and> answer = snd (k q cur)
      \<and> calls_in_turn ks (fst (k q cur)) (current_after cur answer) log)"

text \<open>
  After the words of the specification: the suspended generators, given in order of
  entry, are resumed from the most recently entered one upstream. A generator is resumed
  after every generator entered later, with the response current after them; a
  replacement it yields becomes the current response, an end without a value leaves the
  current response as it is, and an exception ends the resumption. The result has the
  shape of the result of the second loop.
\<close>

fun resume_upstream ::
  "rewind \<Rightarrow> request \<Rightarrow> response option \<Rightarrow> request \<times> (exn + response option) \<times> resume_log" where
  "resume_upstream [] q cur = (q, Inr cur, [])"
| "resume_upstream ((i, k) # later) q cur =
     (case resume_upstream later q cur of
        (q1, Inl e, log) \<Rightarrow> (q1, Inl e, log)
      | (q1, Inr cur1, log) \<Rightarrow>
          (case k q1 cur1 of
             (q2, SendRaise e) \<Rightarrow> (q2, Inl e, log @ [(i, cur1, SendRaise e)])
           | (q2, answer) \<Rightarrow>
               (q2, Inr (current_after cur1 answer), log @ [(i, cur1, answer)])))"

section \<open>Parameter sources (\<open>ParamIn\<close>)\<close>

text \<open>
  Values that parameters and results take: \<open>NoneV\<close> is Python's \<open>None\<close>, \<open>StreamV\<close> a
  \<open>Stream\<close> object.
\<close>

datatype val = NoneV | StrV string | IntV int | BytesV bytes | StreamV stream

text \<open>
  A type hint is a type, named, or \<open>Annotated[type, annotation, ...]\<close>. An annotation
  is a \<open>ParamIn\<close> object or anything else. \<open>_InString\<close> objects carry the request
  attribute they read, the key and a description; \<open>InBody\<close> is the one \<open>_InBody\<close> object.
\<close>

datatype request_attr = AttrQuery | AttrHeaders | AttrCookies

datatype param_in = InString request_attr string string | InBody

datatype annotation = ParamInAnn param_in | OtherAnn string

datatype hint = Type string | Annotated string "annotation list"

definition InQuery :: "string \<Rightarrow> param_in" where
  "InQuery name = InString AttrQuery name ''query parameter''"

definition InHeader :: "string \<Rightarrow> param_in" where
  "InHeader name = InString AttrHeaders name ''request header''"

definition InCookie :: "string \<Rightarrow> param_in" where
  "InCookie name = InString AttrCookies name ''request cookie''"

text \<open>\<open>__str__\<close> of the two kinds of \<open>ParamIn\<close>.\<close>

fun str_param_in :: "param_in \<Rightarrow> string" where
  "str_param_in (InString attr key description) = description @ '': '' @ key"
| "str_param_in InBody = ''request body''"

text \<open>
  \<open>str(e)\<close> of an exception: empty without arguments, the argument when there is one,
  the tuple of the arguments otherwise (written without escapes).
\<close>

fun join_comma :: "string list \<Rightarrow> string" where
  "join_comma [] = []"
| "join_comma [a] = a"
| "join_comma (a # b # rest) = a @ '', '' @ join_comma (b # rest)"

fun str_exn :: "exn \<Rightarrow> string" where
  "str_exn (Exn c [] ca) = []"
| "str_exn (Exn c [a] ca) = a"
| "str_exn (Exn c as ca) =
     ''('' @ join_comma (map (\<lambda>a. [CHR 0x27] @ a @ [CHR 0x27]) as) @ '')''"

text \<open>
  What dispatch takes from \<open>fondat.codec\<close>, \<open>fondat.types\<close>, \<open>fondat.validation\<close>,
  \<open>fondat.error\<close> and \<open>json\<close>, none of which is part of the sources: the two subclass
  tests on hints, the decoders and the encoder of the codecs (a failing \<open>get_codec\<close>
  counts as a failing call), \<open>validate\<close> (\<open>None\<close> when it returns), the default content
  type of a \<open>BytesStream\<close>, the \<open>status\<close> and \<open>__doc__\<close> of an error, and \<open>json.dumps\<close> of
  the error body \<open>dict(error=..., detail=...)\<close>, encoded.
\<close>

record ext =
  is_subclass_Stream :: "hint \<Rightarrow> bool"
  is_optional :: "hint \<Rightarrow> bool"
  string_decode :: "hint \<Rightarrow> string \<Rightarrow> exn + val"
  string_decode_bytes :: "string \<Rightarrow> exn + bytes"
  binary_decode :: "hint \<Rightarrow> bytes \<Rightarrow> exn + val"
  binary_encode :: "hint \<Rightarrow> val \<Rightarrow> exn + bytes"
  binary_content_type :: "hint \<Rightarrow> string"
  validate :: "val \<Rightarrow> hint \<Rightarrow> exn option"
  default_content_type :: string
  error_status :: "exn \<Rightarrow> nat"
  error_doc :: "exn \<Rightarrow> string option"
  json_dumps_error :: "nat \<Rightarrow> string option \<Rightarrow> bytes"

text \<open>
  \<open>except (TypeError, ValueError) as e: raise BadRequestError(f"{e} in {self}")\<close>: the
  two classes become a bad request, any other exception passes.
\<close>

definition bad_request_in :: "param_in \<Rightarrow> exn \<Rightarrow> exn" where
  "bad_request_in in_param e =
     (if cls e = TypeError \<or> cls e = ValueError
      then Exn BadRequestError [str_exn e @ '' in '' @ str_param_in in_param] None
      else e)"

definition request_attr_get :: "request_attr \<Rightarrow> request \<Rightarrow> string \<Rightarrow> string option" where
  "request_attr_get attr q key =
     (case attr of
        AttrQuery \<Rightarrow> multidict_get (query q) key
      | AttrHeaders \<Rightarrow> cimultidict_get (headers q) key
      | AttrCookies \<Rightarrow> multidict_get (cookies q) key)"

text \<open>
  \<open>_InString.get\<close> and \<open>_InBody.get\<close>. Reading the body to decode it consumes the
  stream, which the request keeps.
\<close>

fun param_in_get :: "ext \<Rightarrow> param_in \<Rightarrow> hint \<Rightarrow> request \<Rightarrow> request \<times> (exn + val)" where
  "param_in_get x (InString attr key description) hint q =
     (case request_attr_get attr q key of
        None \<Rightarrow> (q, Inr NoneV)
      | Some v \<Rightarrow>
          (if is_subclass_Stream x hint then
             (case string_decode_bytes x v of
                Inl e \<Rightarrow> (q, Inl (bad_request_in (InString attr key description) e))
              | Inr b \<Rightarrow> (q, Inr (StreamV (BytesStream b (default_content_type x)))))
           else
             (case string_decode x hint v of
                Inl e \<Rightarrow> (q, Inl (bad_request_in (InString attr key description) e))
              | Inr d \<Rightarrow> (q, Inr d))))"
| "param_in_get x InBody hint q =
     (if is_subclass_Stream x hint then
        (q, Inr (case body q of None \<Rightarrow> NoneV | Some s \<Rightarrow> StreamV s))
      else
        (case body q of
           None \<Rightarrow> (q, Inr NoneV)
         | Some s \<Rightarrow>
             (let v = concat (chunks s); q' = q\<lparr>body := Some (s\<lparr>chunks := []\<rparr>)\<rparr>
              in if length v = 0 then (q', Inr NoneV)
                 else (case binary_decode x hint v of
                         Inl e \<Rightarrow> (q', Inl (bad_request_in InBody e))
                       | Inr d \<Rightarrow> (q', Inr d)))))"

section \<open>Resources and operations (\<open>fondat.resource\<close>)\<close>

text \<open>
  An operation, as dispatch sees it: its type hints in order
  (\<open>typing.get_type_hints(operation, include_extras=True)\<close>, the return hint under
  \<open>return\<close>), the defaults of its signature (\<open>inspect.Parameter.empty\<close> or a value), the
  security requirements of its \<open>_fondat_operation\<close>, and the decorated coroutine.
\<close>

datatype default = Empty | Default val

type_synonym kwargs = "string \<Rightarrow> val option"

record operation =
  op_hints :: "(string \<times> hint) list"
  op_signature :: "(string \<times> default) list"
  op_security :: "requirement list option"
  op_body :: "kwargs \<Rightarrow> exn + val"

text \<open>
  Calling the operation runs the \<open>wrapper\<close> of the \<open>operation\<close> decorator:
  \<open>await authorize(operation.security)\<close>, then the decorated coroutine.
\<close>

definition call_operation :: "operation \<Rightarrow> kwargs \<Rightarrow> exn + val" where
  "call_operation op params =
     (case authorize (op_security op) of
        Inl e \<Rightarrow> Inl e
      | Inr u \<Rightarrow> op_body op params)"

text \<open>
  Objects of the resource tree. A callable carries: whether it is a coroutine function,
  whether the \<open>return\<close> entry of its type hints is a resource, what calling it with no
  argument gives, and its \<open>_fondat_operation\<close> (\<open>None\<close> when it is not an operation). A
  resource carries the attributes \<open>getattr\<close> finds on it and its \<open>__getitem__\<close> (\<open>None\<close>
  when its class has none). \<open>Plain\<close> is any other object.
\<close>

datatype obj =
    PyNone
  | Plain string
  | Callable bool bool "exn + obj" "operation option"
  | Resource "(string \<times> obj) list" "(string \<Rightarrow> exn + obj) option"

fun is_resource :: "obj \<Rightarrow> bool" where
  "is_resource (Resource attrs item) = True"
| "is_resource _ = False"

fun fondat_operation :: "obj \<Rightarrow> operation option" where
  "fondat_operation (Callable co rr res opm) = opm"
| "fondat_operation _ = None"

definition is_operation :: "obj \<Rightarrow> bool" where
  "is_operation v = (fondat_operation v \<noteq> None)"

text \<open>\<open>getattr(resource, name, None)\<close> and \<open>resource[key]\<close>.\<close>

fun getattr :: "obj \<Rightarrow> string \<Rightarrow> obj" where
  "getattr (Resource attrs item) name =
     (case map_of attrs name of None \<Rightarrow> PyNone | Some v \<Rightarrow> v)"
| "getattr _ name = PyNone"

fun getitem :: "obj \<Rightarrow> string \<Rightarrow> exn + obj" where
  "getitem (Resource attrs (Some item)) key = item key"
| "getitem _ key = Inl (Exn TypeError [''object is not subscriptable''] None)"

section \<open>Resource traversal (\<open>_subordinate\<close>)\<close>

text \<open>
  \<open>_subordinate(resource, segment)\<close>. For a callable attribute whose return hint is a
  resource the next statement is \<open>if is_coroutine_function(attr):\<close>; \<open>fondat/http.py\<close>
  binds no name \<open>is_coroutine_function\<close> (it imports \<open>asyncio\<close> and \<open>inspect\<close> as modules
  only), so the condition raises \<open>NameError\<close> and neither \<open>await attr()\<close> nor \<open>attr()\<close> is
  reached. The keyed lookup catches \<open>TypeError\<close> alone.
\<close>

definition subordinate :: "obj \<Rightarrow> string \<Rightarrow> exn + obj" where
  "subordinate resource segment =
     (case getattr resource segment of
        Resource attrs item \<Rightarrow> Inr (Resource attrs item)
      | Plain s \<Rightarrow> Inl (Exn NotFoundError [] None)
      | Callable co returns_resource res opm \<Rightarrow>
          (if returns_resource then Inl (undefined_name ''is_coroutine_function'')
           else Inl (Exn NotFoundError [] None))
      | PyNone \<Rightarrow>
          (case getitem resource segment of
             Inl e \<Rightarrow>
               (if cls e = TypeError then Inl (Exn NotFoundError [] None) else Inl e)
           | Inr item \<Rightarrow>
               (if is_resource item then Inr item else Inl (Exn NotFoundError [] None))))"

text \<open>The loop \<open>for segment in segments: resource = await _subordinate(resource, segment)\<close>.\<close>

fun traverse :: "obj \<Rightarrow> string list \<Rightarrow> exn + obj" where
  "traverse resource [] = Inr resource"
| "traverse resource (segment # rest) =
     (case subordinate resource segment of
        Inl e \<Rightarrow> Inl e
      | Inr r \<Rightarrow> traverse r rest)"

section \<open>The application (\<open>Application\<close>)\<close>

text \<open>
  \<open>mount_path\<close> is \<open>Application.path\<close> and \<open>app_filters\<close> is \<open>Application.filters\<close>. The
  error handler takes the error and returns a response or raises.
\<close>

record application =
  root :: obj
  mount_path :: string
  app_filters :: "filter list"
  error_handler :: "exn \<Rightarrow> exn + response"

definition Application ::
  "obj \<Rightarrow> filter list \<Rightarrow> (exn \<Rightarrow> exn + response) \<Rightarrow> string \<Rightarrow> exn + application" where
  "Application r fs eh p =
     (if \<not> is_resource r then Inl (Exn TypeError [''root is not a resource''] None)
      else Inr \<lparr>root = r, mount_path = rstrip CHR ''/'' p @ ''/'', app_filters = fs,
                error_handler = eh\<rparr>)"

text \<open>The default error handler, \<open>handle_error\<close>.\<close>

definition handle_error :: "ext \<Rightarrow> exn \<Rightarrow> exn + response" where
  "handle_error x err =
     (let b = json_dumps_error x (error_status x err)
                (case args err of a # rest \<Rightarrow> Some a | [] \<Rightarrow> error_doc x err);
          r1 = Response\<lparr>status := error_status x err\<rparr>;
          r2 = r1\<lparr>headers := cimultidict_setitem (headers r1) ''content-type'' ''application/json''\<rparr>;
          r3 = r2\<lparr>headers := cimultidict_setitem (headers r2) ''content-length'' (str_nat (length b))\<rparr>
      in Inr (r3\<lparr>body := Some (BytesStream b (default_content_type x))\<rparr>))"

text \<open>
  \<open>Application._handle\<close>, in the order of its statements. First the path: the mount
  prefix, the segments, the traversal, and the attribute named after the lowercased
  method, which must be an operation.
\<close>

definition segments_of :: "string \<Rightarrow> string list" where
  "segments_of p = (if p = [] then [] else split_on CHR ''/'' p)"

definition resolve_operation :: "application \<Rightarrow> request \<Rightarrow> request \<times> (exn + operation)" where
  "resolve_operation self q =
     (if \<not> startswith (path q) (mount_path self) then (q, Inl (Exn NotFoundError [] None))
      else
        (let q1 = q\<lparr>path := drop (length (mount_path self)) (path q)\<rparr>
         in case traverse (root self) (segments_of (path q1)) of
              Inl e \<Rightarrow> (q1, Inl e)
            | Inr resource \<Rightarrow>
                (case fondat_operation (getattr resource (lower (req_method q1))) of
                   None \<Rightarrow> (q1, Inl (Exn MethodNotAllowedError [] None))
                 | Some op \<Rightarrow> (q1, Inr op))))"

text \<open>
  The source annotation of a hint: the first \<open>ParamIn\<close> among the annotations of an
  \<open>Annotated\<close> hint, \<open>InQuery(name)\<close> otherwise; the hint left is the annotated type.
\<close>

fun first_param_in :: "annotation list \<Rightarrow> param_in option" where
  "first_param_in [] = None"
| "first_param_in (ParamInAnn p # anns) = Some p"
| "first_param_in (OtherAnn a # anns) = first_param_in anns"

fun resolve_hint :: "string \<Rightarrow> hint \<Rightarrow> hint \<times> param_in" where
  "resolve_hint name (Type t) = (Type t, InQuery name)"
| "resolve_hint name (Annotated t anns) =
     (Type t, case first_param_in anns of Some p \<Rightarrow> p | None \<Rightarrow> InQuery name)"

text \<open>
  The loop over \<open>hints.items()\<close>, with the dictionary \<open>params\<close> as accumulator.
  \<open>signature.parameters[name]\<close> raises \<open>KeyError\<close> for a name the signature lacks.
\<close>

fun bind_params ::
  "ext \<Rightarrow> (string \<times> default) list \<Rightarrow> (string \<times> hint) list \<Rightarrow> request \<Rightarrow> kwargs
     \<Rightarrow> request \<times> (exn + kwargs)" where
  "bind_params x sig [] q params = (q, Inr params)"
| "bind_params x sig ((name, h) # rest) q params =
     (if name = ''return'' then bind_params x sig rest q params
      else
        (case param_in_get x (snd (resolve_hint name h)) (fst (resolve_hint name h)) q of
           (q', Inl e) \<Rightarrow> (q', Inl e)
         | (q', Inr param) \<Rightarrow>
             (if param = NoneV then
                (case map_of sig name of
                   None \<Rightarrow> (q', Inl (Exn KeyError [name] None))
                 | Some d \<Rightarrow>
                     (if d = Empty \<and> \<not> is_optional x (fst (resolve_hint name h)) then
                        (q', Inl (Exn BadRequestError
                                    [''expecting value in ''
                                       @ str_param_in (snd (resolve_hint name h))] None))
                      else bind_params x sig rest q' (params(name \<mapsto> NoneV))))
              else
                (case validate x param (fst (resolve_hint name h)) of
                   Some e \<Rightarrow> (q', Inl (bad_request_in (snd (resolve_hint name h)) e))
                 | None \<Rightarrow> bind_params x sig rest q' (params(name \<mapsto> param))))))"

text \<open>
  From the result of the operation to the response: validation against the return
  hint, encoding unless the return hint is a stream type, and the headers and status.
  \<open>response.body.content_type\<close> raises \<open>AttributeError\<close> on a body that is no stream.
\<close>

definition return_hint :: "operation \<Rightarrow> hint" where
  "return_hint op = (case map_of (op_hints op) ''return'' of None \<Rightarrow> Type ''NoneType'' | Some h \<Rightarrow> h)"

definition set_body :: "stream \<Rightarrow> response" where
  "set_body s =
     (let r1 = Response\<lparr>body := Some s\<rparr>;
          r2 = r1\<lparr>headers := cimultidict_setitem (headers r1) ''Content-Type'' (content_type s)\<rparr>
      in case content_length s of
           None \<Rightarrow> r2
         | Some n \<Rightarrow>
             (if n = 0 then r2\<lparr>status := 204\<rparr>
              else r2\<lparr>headers :=
                        cimultidict_setitem (headers r2) ''Content-Length'' (str_nat n)\<rparr>))"

definition respond :: "ext \<Rightarrow> hint \<Rightarrow> val \<Rightarrow> exn + response" where
  "respond x rh result =
     (case validate x result rh of
        Some e \<Rightarrow> Inl e
      | None \<Rightarrow>
          (if \<not> is_subclass_Stream x rh then
             (case binary_encode x rh result of
                Inl e \<Rightarrow> Inl e
              | Inr b \<Rightarrow> Inr (set_body (BytesStream b (binary_content_type x rh))))
           else
             (case result of
                StreamV s \<Rightarrow> Inr (set_body s)
              | _ \<Rightarrow> Inl (Exn AttributeError [''object has no attribute content_type''] None))))"

definition invoke :: "ext \<Rightarrow> operation \<Rightarrow> request \<Rightarrow> request \<times> (exn + response)" where
  "invoke x op q =
     (case bind_params x (op_signature op) (op_hints op) q Map.empty of
        (q', Inl e) \<Rightarrow> (q', Inl e)
      | (q', Inr params) \<Rightarrow>
          (case call_operation op params of
             Inl e \<Rightarrow> (q', Inl e)
           | Inr result \<Rightarrow> (q', respond x (return_hint op) result)))"

definition dispatch :: "ext \<Rightarrow> application \<Rightarrow> request \<Rightarrow> request \<times> (exn + response)" where
  "dispatch x self q =
     (case resolve_operation self q of
        (q1, Inl e) \<Rightarrow> (q1, Inl e)
      | (q1, Inr op) \<Rightarrow> invoke x op q1)"

text \<open>
  \<open>Application.handle\<close>. \<open>dispatch\<close> is the handler of the chain. An error of the
  taxonomy goes to the error handler; any other \<open>Exception\<close> is first wrapped
  (\<open>raise fondat.error.InternalServerError from ex\<close>); what is no \<open>Exception\<close> leaves
  \<open>handle\<close>. For an \<open>InternalServerError\<close> the handler clause logs
  \<open>err.__cause__.args[0]\<close> at error severity before it calls the error handler: reading
  \<open>args\<close> of a missing cause raises \<open>AttributeError\<close>, and indexing an empty \<open>args\<close>
  raises \<open>IndexError\<close>; either leaves \<open>handle\<close>. The result holds the log records written.
\<close>

datatype log_record = LogError string exn

definition dispatch_handler :: "ext \<Rightarrow> application \<Rightarrow> handler" where
  "dispatch_handler x self q =
     (case dispatch x self q of
        (q', Inl e) \<Rightarrow> (q', Inl e)
      | (q', Inr r) \<Rightarrow> (q', Inr (Some r)))"

definition on_error ::
  "application \<Rightarrow> request \<Rightarrow> exn \<Rightarrow> request \<times> (exn + response option) \<times> log_record list" where
  "on_error self q err =
     (if cls err = InternalServerError then
        (case cause err of
           None \<Rightarrow> (q, Inl (Exn AttributeError [''NoneType object has no attribute args''] None), [])
         | Some c \<Rightarrow>
             (case args c of
                [] \<Rightarrow> (q, Inl (Exn IndexError [''tuple index out of range''] None), [])
              | msg # rest \<Rightarrow>
                  (case error_handler self err of
                     Inl e \<Rightarrow> (q, Inl e, [LogError msg c])
                   | Inr r \<Rightarrow> (q, Inr (Some r), [LogError msg c]))))
      else
        (case error_handler self err of
           Inl e \<Rightarrow> (q, Inl e, [])
         | Inr r \<Rightarrow> (q, Inr (Some r), [])))"

definition application_handle ::
  "ext \<Rightarrow> application \<Rightarrow> request \<Rightarrow> request \<times> (exn + response option) \<times> log_record list" where
  "application_handle x self q =
     (case handle \<lparr>filters = app_filters self, handler = dispatch_handler x self\<rparr> q of
        (q', Inr r, resumed) \<Rightarrow> (q', Inr r, [])
      | (q', Inl ex, resumed) \<Rightarrow>
          (if is_Error (cls ex) then on_error self q' ex
           else if is_Exception (cls ex) then
             on_error self q' (Exn InternalServerError [] (Some ex))
           else (q', Inl ex, [])))"

section \<open>Example scenarios\<close>

text \<open>Concrete requests, responses, filters and handlers, used to instantiate the theorems.\<close>

definition example_request :: request where
  "example_request =
     \<lparr>headers = [], cookies = [], body = None,
      req_method = ''GET'', path = ''/'', version = ''1.1'', query = []\<rparr>"

definition plain_response :: "nat \<Rightarrow> response" where
  "plain_response s = \<lparr>headers = [], cookies = [], body = None, status = s\<rparr>"

text \<open>
  A two-phase filter that marks the request with a header on entry, yields no value,
  and on resumption answers with \<open>answer\<close>.
\<close>

definition resumed_with :: "send_result \<Rightarrow> suspended" where
  "resumed_with answer = (\<lambda>q response. (q, answer))"

definition enter_and_continue :: "string \<Rightarrow> send_result \<Rightarrow> request \<Rightarrow> request \<times> next_result" where
  "enter_and_continue tag answer q =
     (q\<lparr>headers := headers q @ [(''X-Entered'', tag)]\<rparr>, NextYield None (resumed_with answer))"

text \<open>A two-phase filter that yields a response at its first \<open>yield\<close>.\<close>

definition short_circuit :: "response \<Rightarrow> request \<Rightarrow> request \<times> next_result" where
  "short_circuit r q = (q, NextYield (Some r) (resumed_with SendStop))"

definition ok_handler :: handler where
  "ok_handler q = (q, Inr (Some (plain_response 200)))"

text \<open>
  A two-phase filter that marks the request on entry and on resumption, and on
  resumption answers with the response it was sent, marked with its tag (with no value
  when it was sent none).
\<close>

definition stamp :: "string \<Rightarrow> suspended" where
  "stamp tag q response =
     (q\<lparr>headers := headers q @ [(''X-Resumed'', tag)]\<rparr>,
      case response of
        None \<Rightarrow> SendYield None
      | Some r \<Rightarrow> SendYield (Some (r\<lparr>headers := headers r @ [(''X-Seen-By'', tag)]\<rparr>)))"

definition enter_and_stamp :: "string \<Rightarrow> request \<Rightarrow> request \<times> next_result" where
  "enter_and_stamp tag q =
     (q\<lparr>headers := headers q @ [(''X-Entered'', tag)]\<rparr>, NextYield None (stamp tag))"

definition stamping_filters :: "filter list" where
  "stamping_filters =
     [AsyncGen (enter_and_stamp ''F1''),
      AsyncGen (enter_and_continue ''F2'' SendStop),
      AsyncGen (enter_and_stamp ''F3'')]"

definition seen_by :: "string list \<Rightarrow> response" where
  "seen_by tags = \<lparr>headers = map (\<lambda>t. (''X-Seen-By'', t)) tags, cookies = [], body = None, status = 200\<rparr>"

definition marked :: "(string \<times> string) list \<Rightarrow> request" where
  "marked hs = example_request\<lparr>headers := hs\<rparr>"

definition refusing_filters :: "filter list" where
  "refusing_filters =
     [AsyncGen (enter_and_continue ''F1'' (SendYield None)),
      AsyncGen (short_circuit (plain_response 403)),
      AsyncGen (enter_and_continue ''F3'' (SendYield (Some (plain_response 202))))]"

text \<open>
  Collaborators for the examples: only \<open>Stream\<close> is a stream type, no hint is optional,
  strings and bytes decode to themselves, \<open>None\<close> encodes to no bytes, validation always
  passes, errors carry the usual status codes, and the error body is abbreviated to
  \<open>error\<close> and the status.
\<close>

definition example_ext :: ext where
  "example_ext =
     \<lparr>is_subclass_Stream = (\<lambda>h. h = Type ''Stream''),
      is_optional = (\<lambda>h. False),
      string_decode = (\<lambda>h s. Inr (StrV s)),
      string_decode_bytes = (\<lambda>s. Inr s),
      binary_decode = (\<lambda>h b. Inr (BytesV b)),
      binary_encode =
        (\<lambda>h v. case v of
                  NoneV \<Rightarrow> Inr []
                | StrV s \<Rightarrow> Inr s
                | BytesV b \<Rightarrow> Inr b
                | _ \<Rightarrow> Inl (Exn TypeError [''no codec''] None)),
      binary_content_type = (\<lambda>h. ''text/plain''),
      validate = (\<lambda>v h. None),
      default_content_type = ''application/octet-stream'',
      error_status =
        (\<lambda>e. case cls e of
                BadRequestError \<Rightarrow> 400
              | UnauthorizedError \<Rightarrow> 401
              | ForbiddenError \<Rightarrow> 403
              | NotFoundError \<Rightarrow> 404
              | MethodNotAllowedError \<Rightarrow> 405
              | _ \<Rightarrow> 500),
      error_doc = (\<lambda>e. None),
      json_dumps_error = (\<lambda>n d. ''error '' @ str_nat n)\<rparr>"

text \<open>
  A resource tree. The root has: \<open>items\<close>, a resource with keyed lookup (key \<open>1\<close> is a
  resource with a \<open>get\<close> operation and a \<open>put\<close> attribute that is no operation, key
  \<open>count\<close> is no resource, any other key raises \<open>KeyError\<close>); \<open>catalog\<close> and
  \<open>acatalog\<close>, a method and a coroutine method whose declared return type is a resource;
  \<open>version\<close>, a string; \<open>fail\<close> and \<open>cancel\<close>, resources whose \<open>get\<close> raises; \<open>empty\<close>
  and \<open>blank\<close>, whose \<open>get\<close> returns \<open>None\<close> and an empty stream; \<open>upload\<close>, whose \<open>post\<close>
  takes a required parameter \<open>item\<close> from the body; \<open>search\<close>, whose \<open>get\<close> takes a
  query parameter \<open>limit\<close> with a default and a required query parameter \<open>q\<close>, and tells
  how \<open>limit\<close> reached it.
\<close>

definition operation_returning :: "string \<Rightarrow> exn + val \<Rightarrow> operation" where
  "operation_returning tname res =
     \<lparr>op_hints = [(''return'', Type tname)], op_signature = [], op_security = None,
      op_body = (\<lambda>params. res)\<rparr>"

definition resource_with :: "string \<Rightarrow> operation \<Rightarrow> obj" where
  "resource_with name op =
     Resource [(name, Callable True False (Inl (Exn TypeError [] None)) (Some op)),
               (''put'', Plain ''not an operation'')] None"

definition items_getitem :: "string \<Rightarrow> exn + obj" where
  "items_getitem key =
     (if key = ''1'' then Inr (resource_with ''get'' (operation_returning ''str'' (Inr (StrV ''ok''))))
      else if key = ''count'' then Inr (Plain ''1'')
      else Inl (Exn KeyError [key] None))"

definition items_resource :: obj where
  "items_resource = Resource [] (Some items_getitem)"

definition empty_stream :: stream where
  "empty_stream = \<lparr>chunks = [], content_type = ''text/csv'', content_length = Some 0\<rparr>"

definition upload_operation :: operation where
  "upload_operation =
     \<lparr>op_hints = [(''item'', Annotated ''Item'' [OtherAnn ''the item'', ParamInAnn InBody]),
                  (''return'', Type ''str'')],
      op_signature = [(''item'', Empty)],
      op_security = None,
      op_body = (\<lambda>params. Inr (StrV ''stored''))\<rparr>"

definition search_operation :: operation where
  "search_operation =
     \<lparr>op_hints = [(''limit'', Type ''int''), (''q'', Type ''str''), (''return'', Type ''str'')],
      op_signature = [(''limit'', Default (IntV 10)), (''q'', Empty)],
      op_security = None,
      op_body =
        (\<lambda>params. case params ''limit'' of
                       None \<Rightarrow> Inr (StrV ''limit omitted'')
                     | Some NoneV \<Rightarrow> Inr (StrV ''limit is None'')
                     | Some v \<Rightarrow> Inr (StrV ''limit given''))\<rparr>"

definition example_root :: obj where
  "example_root =
     Resource [(''items'', items_resource),
               (''catalog'', Callable False True (Inr items_resource) None),
               (''acatalog'', Callable True True (Inr items_resource) None),
               (''version'', Plain ''1.0''),
               (''fail'', resource_with ''get''
                  (operation_returning ''str'' (Inl (Exn ValueError [''boom''] None)))),
               (''cancel'', resource_with ''get''
                  (operation_returning ''str'' (Inl (Exn CancelledError [] None)))),
               (''empty'', resource_with ''get'' (operation_returning ''NoneType'' (Inr NoneV))),
               (''blank'', resource_with ''get''
                  (operation_returning ''Stream'' (Inr (StreamV empty_stream)))),
               (''upload'', resource_with ''post'' upload_operation),
               (''search'', resource_with ''get'' search_operation)] None"

definition example_app :: application where
  "example_app =
     \<lparr>root = example_root, mount_path = ''/'', app_filters = [],
      error_handler = handle_error example_ext\<rparr>"

section \<open>Properties of authorization\<close>

lemma authorize_loop_only_unauthorized:
  "\<forall>r \<in> set rs. \<exists>e. r = Some e \<and> cls e = UnauthorizedError \<Longrightarrow>
   authorize_loop (Some x) rs = Inl x"
  by (induction rs) auto

text \<open>
  Claim C1. When every requirement fails and at least one fails with Forbidden, the
  first Forbidden failure is to be re-raised, whatever the order of the failures. The
  code does not do so: with a Forbidden failure followed by an Unauthorized one, and
  with the two in the other order, \<open>authorize\<close> raises \<open>NameError\<close> for the unbound name
  \<open>ForbiddenException\<close>, and the Forbidden failure is not the exception that surfaces.
\<close>

theorem authorize_forbidden_raises_NameError:
  "authorize (Some [Some (Exn ForbiddenError [''denied''] None),
                    Some (Exn UnauthorizedError [''login''] None)])
     = Inl (undefined_name ''ForbiddenException'')
   \<and> authorize (Some [Some (Exn UnauthorizedError [''login''] None),
                      Some (Exn ForbiddenError [''denied''] None)])
     = Inl (undefined_name ''ForbiddenException'')
   \<and> undefined_name ''ForbiddenException'' \<noteq> Exn ForbiddenError [''denied''] None"
  by (simp add: authorize_def undefined_name_def)

section \<open>Properties of the filter chain\<close>

lemma upt_shift: "[i..<i + Suc n] = i # [Suc i..<Suc i + n]"
  by (simp add: upt_conv_Cons del: upt_Suc)

lemma enter_all_pre_phase:
  "enter_all fs i q = Some (qn, ks) \<Longrightarrow>
   pre_phase fs i q rw = (qn, Inr (None, rw @ ks)) \<and> map fst ks = [i..<i + length fs]"
proof (induction fs arbitrary: i q rw ks)
  case Nil
  then show ?case by simp
next
  case (Cons f fs)
  then obtain anext where f: "f = AsyncGen anext" by (cases f) auto
  from Cons.prems f obtain q' k ks' where s: "anext q = (q', NextYield None k)"
    and c: "enter_all fs (Suc i) q' = Some (qn, ks')" and ks: "ks = (i, k) # ks'"
    by (auto split: prod.splits next_result.splits option.splits)
  from Cons.IH[OF c, of "rw @ [(i, k)]"]
  have p: "pre_phase fs (Suc i) q' (rw @ [(i, k)]) = (qn, Inr (None, (rw @ [(i, k)]) @ ks'))"
    and m: "map fst ks' = [Suc i..<Suc i + length fs]" by blast+
  have "pre_phase (f # fs) i q rw = (qn, Inr (None, rw @ ks))"
    using f s p ks by simp
  moreover have "map fst ks = [i..<i + length (f # fs)]"
    using m ks upt_shift[of i "length fs"] by simp
  ultimately show ?case by blast
qed

lemma rewind_loop_raise:
  "k q r = (q1, SendRaise e) \<Longrightarrow>
   rewind_loop ((i, k) # ks) q r = (q1, Inl e, [(i, r, SendRaise e)])"
  by simp

lemma rewind_loop_step:
  "k q r = (q1, ans) \<Longrightarrow> \<forall>e. ans \<noteq> SendRaise e \<Longrightarrow>
   rewind_loop ks q1 (current_after r ans) = (q2, out, log) \<Longrightarrow>
   rewind_loop ((i, k) # ks) q r = (q2, out, (i, r, ans) # log)"
  by (cases ans) (auto split: option.splits)

lemma rewind_loop_cases:
  assumes "rewind_loop ((i, k) # ks) q r = (q', out, log)"
  obtains (raise) q1 e where "k q r = (q1, SendRaise e)" "q' = q1" "out = Inl e" "log = [(i, r, SendRaise e)]"
  | (step) q1 ans log2 where "k q r = (q1, ans)" "\<forall>e. ans \<noteq> SendRaise e"
      "rewind_loop ks q1 (current_after r ans) = (q', out, log2)" "log = (i, r, ans) # log2"
proof -
  obtain q1 ans where s: "k q r = (q1, ans)" by (cases "k q r")
  show thesis
  proof (cases "\<exists>e. ans = SendRaise e")
    case True
    then obtain e where "ans = SendRaise e" by blast
    with s assms show thesis using raise by simp
  next
    case False
    obtain q2 out2 log2 where rl: "rewind_loop ks q1 (current_after r ans) = (q2, out2, log2)"
      by (cases "rewind_loop ks q1 (current_after r ans)")
    have "rewind_loop ((i, k) # ks) q r = (q2, out2, (i, r, ans) # log2)"
      using s False rl by (intro rewind_loop_step) auto
    with assms have "q' = q2" "out = out2" "log = (i, r, ans) # log2" by auto
    with s False rl show thesis using step by blast
  qed
qed

lemma rewind_loop_order:
  "rewind_loop ks q r = (q', out, log) \<Longrightarrow> map fst log = take (length log) (map fst ks)"
proof (induction ks arbitrary: q r log)
  case Nil
  then show ?case by auto
next
  case (Cons a ks)
  obtain i k where a: "a = (i, k)" by (cases a)
  from Cons.prems[unfolded a] show ?case
  proof (cases rule: rewind_loop_cases)
    case (raise q1 e)
    then show ?thesis by (simp add: a)
  next
    case (step q1 ans log2)
    from Cons.IH[OF step(3)] step(4) show ?thesis by (simp add: a)
  qed
qed

lemma rewind_loop_fed:
  "rewind_loop ks q r = (q', out, log) \<Longrightarrow> fed_in_turn r log"
proof (induction ks arbitrary: q r log)
  case Nil
  then show ?case by auto
next
  case (Cons a ks)
  obtain i k where a: "a = (i, k)" by (cases a)
  from Cons.prems[unfolded a] show ?case
  proof (cases rule: rewind_loop_cases)
    case (raise q1 e)
    then show ?thesis by simp
  next
    case (step q1 ans log2)
    from Cons.IH[OF step(3)] step(4) show ?thesis by simp
  qed
qed

lemma rewind_loop_complete:
  "rewind_loop ks q r = (q', Inr final, log) \<Longrightarrow>
   map fst log = map fst ks \<and> final = foldl current_after r (map (\<lambda>e. snd (snd e)) log)"
proof (induction ks arbitrary: q r log)
  case Nil
  then show ?case by auto
next
  case (Cons a ks)
  obtain i k where a: "a = (i, k)" by (cases a)
  from Cons.prems[unfolded a] show ?case
  proof (cases rule: rewind_loop_cases)
    case (raise q1 e)
    then show ?thesis by simp
  next
    case (step q1 ans log2)
    from Cons.IH[OF step(3)] step(4) show ?thesis by (simp add: a)
  qed
qed

lemma pre_phase_append:
  "pre_phase xs i q rw0 = (q1, Inr (None, rw1)) \<Longrightarrow>
   pre_phase (xs @ ys) i q rw0 = pre_phase ys (i + length xs) q1 rw1"
  by (induction xs i q rw0 rule: pre_phase.induct)
     (auto split: prod.splits next_result.splits option.splits sum.splits)

lemma pre_phase_indices:
  "pre_phase xs i q rw0 = (q1, Inr (resp, rw1)) \<Longrightarrow> j \<in> fst ` set rw1 \<Longrightarrow>
   j \<in> fst ` set rw0 \<or> (i \<le> j \<and> j < i + length xs)"
proof (induction xs i q rw0 rule: pre_phase.induct)
  case (1 i q rw)
  then show ?case by simp
next
  case (2 anext fs i q rw)
  obtain q' nr where s: "anext q = (q', nr)" by (cases "anext q")
  show ?case
  proof (cases nr)
    case (NextYield v k)
    show ?thesis
    proof (cases v)
      case None
      with NextYield s "2.prems" have p: "pre_phase fs (Suc i) q' (rw @ [(i, k)]) = (q1, Inr (resp, rw1))"
        by simp
      from "2.IH"(1)[OF s[symmetric] NextYield None p "2.prems"(2)]
      show ?thesis by auto
    next
      case (Some r)
      with NextYield s "2.prems" show ?thesis by simp
    qed
  next
    case NextStop
    with s "2.prems" have p: "pre_phase fs (Suc i) q' rw = (q1, Inr (resp, rw1))" by simp
    from "2.IH"(2)[OF s[symmetric] NextStop p "2.prems"(2)]
    show ?thesis by auto
  next
    case (NextRaise e)
    with s "2.prems" show ?thesis by simp
  qed
next
  case (3 run fs i q rw)
  obtain q' res where s: "run q = (q', res)" by (cases "run q")
  show ?case
  proof (cases res)
    case (Inl e)
    with s "3.prems" show ?thesis by simp
  next
    case (Inr v)
    show ?thesis
    proof (cases v)
      case None
      with Inr s "3.prems" have p: "pre_phase fs (Suc i) q' rw = (q1, Inr (resp, rw1))" by simp
      from "3.IH"[OF s[symmetric] Inr None p "3.prems"(2)]
      show ?thesis by auto
    next
      case (Some r)
      with Inr s "3.prems" show ?thesis by simp
    qed
  qed
next
  case (4 call fs i q rw)
  obtain q' res where s: "call q = (q', res)" by (cases "call q")
  show ?case
  proof (cases res)
    case None
    with s "4.prems" have p: "pre_phase fs (Suc i) q' rw = (q1, Inr (resp, rw1))" by simp
    from "4.IH"[OF s[symmetric] None p "4.prems"(2)]
    show ?thesis by auto
  next
    case (Some e)
    with s "4.prems" show ?thesis by simp
  qed
qed

lemma rewind_loop_log_subset:
  assumes "rewind_loop ks q r = (q', out, log)"
  shows "fst ` set log \<subseteq> fst ` set ks"
proof -
  have "set (map fst log) \<subseteq> set (map fst ks)"
    using rewind_loop_order[OF assms] set_take_subset[of "length log" "map fst ks"] by simp
  then show ?thesis by simp
qed

lemma rewind_loop_calls:
  "rewind_loop ks q r = (q', out, log) \<Longrightarrow> calls_in_turn ks q r log"
proof (induction ks arbitrary: q r log)
  case Nil
  then show ?case by auto
next
  case (Cons a ks)
  obtain i k where a: "a = (i, k)" by (cases a)
  from Cons.prems[unfolded a] show ?case
  proof (cases rule: rewind_loop_cases)
    case (raise q1 e)
    then show ?thesis by (simp add: a)
  next
    case (step q1 ans log2)
    from Cons.IH[OF step(3)] step(1,4) show ?thesis by (simp add: a)
  qed
qed

lemma rewind_loop_snoc:
  "rewind_loop (xs @ [(i, k)]) q r =
     (case rewind_loop xs q r of
        (q1, Inl e, log) \<Rightarrow> (q1, Inl e, log)
      | (q1, Inr cur1, log) \<Rightarrow>
          (case k q1 cur1 of
             (q2, SendRaise e) \<Rightarrow> (q2, Inl e, log @ [(i, cur1, SendRaise e)])
           | (q2, answer) \<Rightarrow>
               (q2, Inr (current_after cur1 answer), log @ [(i, cur1, answer)])))"
proof (induction xs arbitrary: q r)
  case Nil
  show ?case
    by (auto split: prod.splits send_result.splits option.splits)
next
  case (Cons a xs)
  obtain j k' where a: "a = (j, k')" by (cases a)
  obtain q1 ans where s: "k' q r = (q1, ans)" by (cases "k' q r")
  show ?case
  proof (cases "\<exists>e. ans = SendRaise e")
    case True
    then show ?thesis using s a by auto
  next
    case False
    obtain q2 out log where rl: "rewind_loop xs q1 (current_after r ans) = (q2, out, log)"
      by (cases "rewind_loop xs q1 (current_after r ans)")
    have l: "rewind_loop ((j, k') # xs) q r = (q2, out, (j, r, ans) # log)"
      using s False rl by (intro rewind_loop_step) auto
    obtain q3 out3 log3 where rl3:
      "rewind_loop (xs @ [(i, k)]) q1 (current_after r ans) = (q3, out3, log3)"
      by (cases "rewind_loop (xs @ [(i, k)]) q1 (current_after r ans)")
    have l3: "rewind_loop ((j, k') # xs @ [(i, k)]) q r = (q3, out3, (j, r, ans) # log3)"
      using s False rl3 by (intro rewind_loop_step) auto
    from Cons.IH[of q1 "current_after r ans"] rl rl3
    show ?thesis unfolding a
      using l l3
      by (auto split: prod.splits send_result.splits option.splits sum.splits)
  qed
qed

lemma rewind_loop_rev: "rewind_loop (rev ks) q r = resume_upstream ks q r"
proof (induction ks)
  case Nil
  show ?case by simp
next
  case (Cons a ks)
  obtain i k where a: "a = (i, k)" by (cases a)
  show ?case unfolding a using Cons.IH by (simp add: rewind_loop_snoc)
qed

text \<open>
  Claim C6. In a chain whose filters are all two-phase filters that continue past the
  pre-phase (\<open>qn\<close> is the request as they leave it, \<open>ks\<close> their suspended generators in
  order of entry, \<open>r0\<close> what the handler returns), the rewind list of the first loop is
  \<open>ks\<close>, and the chain ends as the resumption of \<open>ks\<close> from the most recently entered
  filter upstream does. The filters are resumed in strictly reverse order of entry: the
  positions in the call log are the reversed positions \<open>0..<length fs\<close>, cut short only
  where a resumed filter raises. Each logged call is the call of the suspended generator
  of that filter with the response current at that moment, starting from the handler's,
  and its logged answer is what that call gives; a replacement the call yields is the
  current response of the next call upstream, and the chain returns the response current
  after the last call.
\<close>

theorem chain_resumes_in_reverse_order:
  assumes ent: "enter_all fs 0 q = Some (qn, ks)"
    and hnd: "h qn = (qh, Inr r0)"
    and run: "handle \<lparr>filters = fs, handler = h\<rparr> q = (q', out, log)"
  shows "pre_phase fs 0 q [] = (qn, Inr (None, ks))
       \<and> map fst ks = [0..<length fs]
       \<and> (q', out, log) = resume_upstream ks qh r0
       \<and> calls_in_turn (rev ks) qh r0 log
       \<and> map fst log = take (length log) (rev [0..<length fs])
       \<and> fed_in_turn r0 log
       \<and> (\<forall>final. out = Inr final \<longrightarrow>
             map fst log = rev [0..<length fs]
           \<and> final = foldl current_after r0 (map (\<lambda>e. snd (snd e)) log))"
proof -
  from enter_all_pre_phase[OF ent, of "[]"]
  have p: "pre_phase fs 0 q [] = (qn, Inr (None, ks))"
    and ids: "map fst ks = [0..<length fs]" by simp_all
  from run p hnd have rl: "rewind_loop (rev ks) qh r0 = (q', out, log)"
    by (simp add: handle_def)
  have up: "(q', out, log) = resume_upstream ks qh r0"
    using rl by (simp add: rewind_loop_rev)
  have calls: "calls_in_turn (rev ks) qh r0 log"
    using rewind_loop_calls[OF rl] .
  have rids: "map fst (rev ks) = rev [0..<length fs]"
    using ids by (metis rev_map)
  from rewind_loop_order[OF rl] rids
  have a: "map fst log = take (length log) (rev [0..<length fs])" by simp
  from rewind_loop_fed[OF rl] have b: "fed_in_turn r0 log" .
  have c: "\<forall>final. out = Inr final \<longrightarrow>
             map fst log = rev [0..<length fs]
           \<and> final = foldl current_after r0 (map (\<lambda>e. snd (snd e)) log)"
    using rewind_loop_complete rl rids by metis
  from p ids up calls a b c show ?thesis by blast
qed

theorem chain_resumes_in_reverse_order_witness:
  "handle \<lparr>filters = stamping_filters, handler = ok_handler\<rparr> example_request =
     (marked [(''X-Entered'', ''F1''), (''X-Entered'', ''F2''), (''X-Entered'', ''F3''),
              (''X-Resumed'', ''F3''), (''X-Resumed'', ''F1'')],
      Inr (Some (seen_by [''F3'', ''F1''])),
      [(2, Some (seen_by []), SendYield (Some (seen_by [''F3'']))),
       (1, Some (seen_by [''F3'']), SendStop),
       (0, Some (seen_by [''F3'']), SendYield (Some (seen_by [''F3'', ''F1''])))])
   \<and> map fst [(2::nat, Some (seen_by []), SendYield (Some (seen_by [''F3'']))),
       (1, Some (seen_by [''F3'']), SendStop),
       (0, Some (seen_by [''F3'']), SendYield (Some (seen_by [''F3'', ''F1''])))]
      = rev [0..<length stamping_filters]
   \<and> calls_in_turn
        (rev [(0, stamp ''F1''), (1, resumed_with SendStop), (2, stamp ''F3'')])
        (marked [(''X-Entered'', ''F1''), (''X-Entered'', ''F2''), (''X-Entered'', ''F3'')])
        (Some (seen_by []))
        [(2, Some (seen_by []), SendYield (Some (seen_by [''F3'']))),
         (1, Some (seen_by [''F3'']), SendStop),
         (0, Some (seen_by [''F3'']), SendYield (Some (seen_by [''F3'', ''F1''])))]"
proof -
  let ?qn = "marked [(''X-Entered'', ''F1''), (''X-Entered'', ''F2''), (''X-Entered'', ''F3'')]"
  let ?qf = "marked [(''X-Entered'', ''F1''), (''X-Entered'', ''F2''), (''X-Entered'', ''F3''),
              (''X-Resumed'', ''F3''), (''X-Resumed'', ''F1'')]"
  let ?ks = "[(0::nat, stamp ''F1''), (1, resumed_with SendStop), (2, stamp ''F3'')]"
  let ?log = "[(2::nat, Some (seen_by []), SendYield (Some (seen_by [''F3'']))),
       (1, Some (seen_by [''F3'']), SendStop),
       (0, Some (seen_by [''F3'']), SendYield (Some (seen_by [''F3'', ''F1''])))]"
  have ent: "enter_all stamping_filters 0 example_request = Some (?qn, ?ks)"
    by (simp add: stamping_filters_def enter_and_stamp_def enter_and_continue_def
          example_request_def marked_def)
  have hnd: "ok_handler ?qn = (?qn, Inr (Some (seen_by [])))"
    by (simp add: ok_handler_def plain_response_def seen_by_def)
  have pre: "pre_phase stamping_filters 0 example_request [] = (?qn, Inr (None, ?ks))"
    by (simp add: stamping_filters_def enter_and_stamp_def enter_and_continue_def
          example_request_def marked_def)
  have run: "handle \<lparr>filters = stamping_filters, handler = ok_handler\<rparr> example_request =
               (?qf, Inr (Some (seen_by [''F3'', ''F1''])), ?log)"
    by (simp add: handle_def pre hnd)
       (simp add: stamp_def resumed_with_def seen_by_def marked_def example_request_def)
  note t = chain_resumes_in_reverse_order[where h = ok_handler, OF ent hnd run]
  have calls: "calls_in_turn (rev ?ks) ?qn (Some (seen_by [])) ?log"
    by (rule t[THEN conjunct2, THEN conjunct2, THEN conjunct2, THEN conjunct1])
  have len: "length stamping_filters = 3"
    by (simp add: stamping_filters_def)
  have order: "map fst ?log = rev [0..<length stamping_filters]"
    using t[THEN conjunct2, THEN conjunct2, THEN conjunct2, THEN conjunct2, THEN conjunct1] len
    by simp
  from run order calls show ?thesis by blast
qed

text \<open>
  Claim C7. A two-phase filter that yields a response at its first \<open>yield\<close> (at position
  \<open>length pre\<close>, the filters \<open>pre\<close> before it having let the request pass) ends the first
  loop with the rewind list as the earlier filters built it: the rewind list does not
  hold the short-circuiting filter, the handler is not called, the second loop runs over
  that rewind list reversed with the yielded response, and no call of the log resumes
  the short-circuiting filter, while the earlier two-phase filters are resumed in reverse
  order of entry.
\<close>

theorem short_circuit_filter_not_resumed:
  assumes before: "pre_phase pre 0 q [] = (qi, Inr (None, rw))"
    and short: "anext qi = (qi', NextYield (Some r) k)"
    and run: "handle \<lparr>filters = pre @ AsyncGen anext # post, handler = h\<rparr> q = (q', out, log)"
  shows "pre_phase (pre @ AsyncGen anext # post) 0 q [] = (qi', Inr (Some r, rw))
       \<and> length pre \<notin> fst ` set rw
       \<and> rewind_loop (rev rw) qi' (Some r) = (q', out, log)
       \<and> length pre \<notin> fst ` set log
       \<and> map fst log = take (length log) (rev (map fst rw))"
proof -
  have a: "pre_phase (pre @ AsyncGen anext # post) 0 q [] = (qi', Inr (Some r, rw))"
    using pre_phase_append[OF before, of "AsyncGen anext # post"] short by simp
  have b: "length pre \<notin> fst ` set rw"
    using pre_phase_indices[OF before, of "length pre"] by auto
  have c: "rewind_loop (rev rw) qi' (Some r) = (q', out, log)"
    using run a by (simp add: handle_def)
  have "fst ` set log \<subseteq> fst ` set (rev rw)"
    using rewind_loop_log_subset[OF c] .
  with b have d: "length pre \<notin> fst ` set log" by auto
  have e: "map fst log = take (length log) (rev (map fst rw))"
    using rewind_loop_order[OF c] by (metis rev_map)
  from a b c d e show ?thesis by blast
qed

theorem short_circuit_filter_not_resumed_witness:
  "handle \<lparr>filters = refusing_filters, handler = ok_handler\<rparr> example_request =
     (example_request\<lparr>headers := [(''X-Entered'', ''F1'')]\<rparr>,
      Inr (Some (plain_response 403)),
      [(0, Some (plain_response 403), SendYield None)])
   \<and> length [AsyncGen (enter_and_continue ''F1'' (SendYield None))] \<notin>
        fst ` set [(0::nat, Some (plain_response 403), SendYield None)]"
proof -
  let ?q1 = "example_request\<lparr>headers := [(''X-Entered'', ''F1'')]\<rparr>"
  let ?pre = "[AsyncGen (enter_and_continue ''F1'' (SendYield None))]"
  let ?post = "[AsyncGen (enter_and_continue ''F3'' (SendYield (Some (plain_response 202))))]"
  have before: "pre_phase ?pre 0 example_request [] =
      (?q1, Inr (None, [(0, resumed_with (SendYield None))]))"
    by (simp add: enter_and_continue_def example_request_def)
  have short: "short_circuit (plain_response 403) ?q1 =
      (?q1, NextYield (Some (plain_response 403)) (resumed_with SendStop))"
    by (simp add: short_circuit_def)
  have run: "handle \<lparr>filters = ?pre @ AsyncGen (short_circuit (plain_response 403)) # ?post,
                      handler = ok_handler\<rparr> example_request =
     (?q1, Inr (Some (plain_response 403)), [(0, Some (plain_response 403), SendYield None)])"
    by (simp add: handle_def enter_and_continue_def example_request_def short_circuit_def
          resumed_with_def)
  note t = short_circuit_filter_not_resumed
    [where anext = "short_circuit (plain_response 403)" and pre = ?pre and post = ?post
       and h = ok_handler, OF before short run]
  have nr: "length ?pre \<notin> fst ` set [(0::nat, Some (plain_response 403), SendYield None)]"
    by (rule t[THEN conjunct2, THEN conjunct2, THEN conjunct2, THEN conjunct1])
  have eq: "refusing_filters = ?pre @ AsyncGen (short_circuit (plain_response 403)) # ?post"
    by (simp add: refusing_filters_def)
  show ?thesis unfolding eq by (rule conjI[OF run nr])
qed

section \<open>Properties of resource traversal\<close>

lemma traverse_append:
  "traverse r (pre @ rest) = (case traverse r pre of Inl e \<Rightarrow> Inl e | Inr r' \<Rightarrow> traverse r' rest)"
  by (induction pre arbitrary: r) (auto split: sum.splits)

lemma subordinate_callable:
  "getattr resource segment = Callable co True res opm \<Longrightarrow>
   subordinate resource segment = Inl (undefined_name ''is_coroutine_function'')"
  by (simp add: subordinate_def)

text \<open>
  Claim C2. A callable attribute (not itself a resource) whose declared return type is a
  resource is to be invoked, awaited when asynchronous, and its result descended into.
  The code does not do so: for the method \<open>catalog\<close> and for the coroutine method
  \<open>acatalog\<close> of the example root, \<open>_subordinate\<close> raises \<open>NameError\<close> for the unbound name
  \<open>is_coroutine_function\<close> before it calls the attribute, and dispatch of \<open>/catalog/1\<close>
  fails with that \<open>NameError\<close>.
\<close>

theorem callable_attribute_raises_NameError:
  "subordinate example_root ''catalog'' = Inl (undefined_name ''is_coroutine_function'')
   \<and> subordinate example_root ''acatalog'' = Inl (undefined_name ''is_coroutine_function'')
   \<and> snd (dispatch example_ext example_app (example_request\<lparr>path := ''/catalog/1''\<rparr>))
       = Inl (undefined_name ''is_coroutine_function'')"
  by (simp add: subordinate_def example_root_def dispatch_def resolve_operation_def
        example_app_def example_request_def startswith_def segments_of_def)

text \<open>
  Claim C3 as stated fails for an out-of-range key: the lookup of key \<open>7\<close> raises
  \<open>KeyError\<close>, which \<open>_subordinate\<close> does not catch, and dispatch of \<open>/items/7\<close> fails with
  \<open>KeyError\<close>, not with \<open>NotFoundError\<close>.
\<close>

theorem keyed_lookup_KeyError_counterexample:
  "snd (dispatch example_ext example_app (example_request\<lparr>path := ''/items/7''\<rparr>))
     = Inl (Exn KeyError [''7''] None)
   \<and> cls (Exn KeyError [''7''] None) \<noteq> NotFoundError"
  by (simp add: subordinate_def example_root_def dispatch_def resolve_operation_def
        example_app_def example_request_def startswith_def segments_of_def
        items_resource_def items_getitem_def)

text \<open>
  Claim C3, as amended. When a segment has no attribute on the current resource (or the
  attribute is \<open>None\<close>) and the keyed lookup does not give a resource, dispatch fails:
  with \<open>NotFoundError\<close> when the lookup raises \<open>TypeError\<close> or gives an object that is no
  resource, and with the exception of the lookup itself, unchanged, when it raises
  anything else.
\<close>

theorem keyed_lookup_not_found:
  assumes mount: "startswith (path q) (mount_path self)"
    and segs: "segments_of (drop (length (mount_path self)) (path q)) = pre @ segment # post"
    and walk: "traverse (root self) pre = Inr resource"
    and noattr: "getattr resource segment = PyNone"
    and nores: "\<forall>item. getitem resource segment = Inr item \<longrightarrow> \<not> is_resource item"
  shows "snd (dispatch x self q) =
           Inl (case getitem resource segment of
                  Inl e \<Rightarrow> if cls e = TypeError then Exn NotFoundError [] None else e
                | Inr item \<Rightarrow> Exn NotFoundError [] None)"
proof -
  have sub: "subordinate resource segment =
           Inl (case getitem resource segment of
                  Inl e \<Rightarrow> if cls e = TypeError then Exn NotFoundError [] None else e
                | Inr item \<Rightarrow> Exn NotFoundError [] None)"
    using noattr nores by (auto simp: subordinate_def split: sum.splits)
  have "traverse (root self) (pre @ segment # post) =
           Inl (case getitem resource segment of
                  Inl e \<Rightarrow> if cls e = TypeError then Exn NotFoundError [] None else e
                | Inr item \<Rightarrow> Exn NotFoundError [] None)"
    by (simp add: traverse_append walk sub)
  then show ?thesis
    using mount segs by (simp add: dispatch_def resolve_operation_def)
qed

theorem keyed_lookup_not_found_witness:
  "snd (dispatch example_ext example_app (example_request\<lparr>path := ''/items/count''\<rparr>))
     = Inl (Exn NotFoundError [] None)
   \<and> snd (dispatch example_ext example_app (example_request\<lparr>path := ''/nothing''\<rparr>))
     = Inl (Exn NotFoundError [] None)"
proof -
  let ?q1 = "example_request\<lparr>path := ''/items/count''\<rparr>"
  let ?q2 = "example_request\<lparr>path := ''/nothing''\<rparr>"
  have m1: "startswith (path ?q1) (mount_path example_app)"
    by (simp add: startswith_def example_app_def example_request_def)
  have s1: "segments_of (drop (length (mount_path example_app)) (path ?q1)) = [''items''] @ ''count'' # []"
    by (simp add: segments_of_def example_app_def example_request_def)
  have w1: "traverse (root example_app) [''items''] = Inr items_resource"
    by (simp add: example_app_def example_root_def subordinate_def items_resource_def)
  have a1: "getattr items_resource ''count'' = PyNone"
    by (simp add: items_resource_def)
  have n1: "\<forall>item. getitem items_resource ''count'' = Inr item \<longrightarrow> \<not> is_resource item"
    by (simp add: items_resource_def items_getitem_def)
  have g1: "getitem items_resource ''count'' = Inr (Plain ''1'')"
    by (simp add: items_resource_def items_getitem_def)
  have m2: "startswith (path ?q2) (mount_path example_app)"
    by (simp add: startswith_def example_app_def example_request_def)
  have s2: "segments_of (drop (length (mount_path example_app)) (path ?q2)) = [] @ ''nothing'' # []"
    by (simp add: segments_of_def example_app_def example_request_def)
  have w2: "traverse (root example_app) [] = Inr example_root"
    by (simp add: example_app_def)
  have a2: "getattr example_root ''nothing'' = PyNone"
    by (simp add: example_root_def)
  have g2: "getitem example_root ''nothing'' = Inl (Exn TypeError [''object is not subscriptable''] None)"
    by (simp add: example_root_def)
  have n2: "\<forall>item. getitem example_root ''nothing'' = Inr item \<longrightarrow> \<not> is_resource item"
    by (simp add: g2)
  from keyed_lookup_not_found[where x = example_ext, OF m1 s1 w1 a1 n1]
       keyed_lookup_not_found[where x = example_ext, OF m2 s2 w2 a2 n2]
  show ?thesis by (simp add: g1 g2)
qed

text \<open>
  Claim C5. When the path of a request resolves to a resource, and the attribute of that
  resource named after the lowercased method is absent or is no operation, dispatch
  fails with \<open>MethodNotAllowedError\<close>.
\<close>

theorem no_operation_for_method:
  assumes mount: "startswith (path q) (mount_path self)"
    and walk: "traverse (root self) (segments_of (drop (length (mount_path self)) (path q)))
                 = Inr resource"
    and noop: "\<not> is_operation (getattr resource (lower (req_method q)))"
  shows "snd (dispatch x self q) = Inl (Exn MethodNotAllowedError [] None)"
  using mount walk noop
  by (simp add: dispatch_def resolve_operation_def is_operation_def)

theorem no_operation_for_method_witness:
  "snd (dispatch example_ext example_app
          (example_request\<lparr>req_method := ''PUT'', path := ''/items/1''\<rparr>))
     = Inl (Exn MethodNotAllowedError [] None)
   \<and> snd (dispatch example_ext example_app
          (example_request\<lparr>req_method := ''DELETE'', path := ''/items/1''\<rparr>))
     = Inl (Exn MethodNotAllowedError [] None)"
proof -
  let ?r = "resource_with ''get'' (operation_returning ''str'' (Inr (StrV ''ok'')))"
  let ?q1 = "example_request\<lparr>req_method := ''PUT'', path := ''/items/1''\<rparr>"
  let ?q2 = "example_request\<lparr>req_method := ''DELETE'', path := ''/items/1''\<rparr>"
  have m1: "startswith (path ?q1) (mount_path example_app)"
    by (simp add: startswith_def example_app_def example_request_def)
  have w1: "traverse (root example_app) (segments_of (drop (length (mount_path example_app)) (path ?q1))) = Inr ?r"
    by (simp add: segments_of_def example_app_def example_request_def example_root_def
          subordinate_def items_resource_def items_getitem_def resource_with_def)
  have n1: "\<not> is_operation (getattr ?r (lower (req_method ?q1)))"
    by (simp add: is_operation_def resource_with_def lower_def lower_char_def example_request_def)
  have m2: "startswith (path ?q2) (mount_path example_app)"
    by (simp add: startswith_def example_app_def example_request_def)
  have w2: "traverse (root example_app) (segments_of (drop (length (mount_path example_app)) (path ?q2))) = Inr ?r"
    by (simp add: segments_of_def example_app_def example_request_def example_root_def
          subordinate_def items_resource_def items_getitem_def resource_with_def)
  have n2: "\<not> is_operation (getattr ?r (lower (req_method ?q2)))"
    by (simp add: is_operation_def resource_with_def lower_def lower_char_def example_request_def)
  from no_operation_for_method[where x = example_ext, OF m1 w1 n1]
       no_operation_for_method[where x = example_ext, OF m2 w2 n2]
  show ?thesis by simp
qed

section \<open>Properties of the application shell\<close>

text \<open>The example application is what the constructor builds for the mount path \<open>/\<close>.\<close>

lemma example_app_constructed:
  "Application example_root [] (handle_error example_ext) ''/'' = Inr example_app"
  by (simp add: Application_def rstrip_def example_root_def example_app_def)

text \<open>
  An \<open>Exception\<close> outside the taxonomy that has no argument: the logging call indexes
  its empty \<open>args\<close>, and the \<open>IndexError\<close> leaves \<open>Application.handle\<close>.
\<close>

lemma empty_args_exception_escapes:
  assumes "handle \<lparr>filters = app_filters self, handler = dispatch_handler x self\<rparr> q
             = (q', Inl ex, resumed)"
    and "\<not> is_Error (cls ex)" and "is_Exception (cls ex)" and "args ex = []"
  shows "application_handle x self q =
           (q', Inl (Exn IndexError [''tuple index out of range''] None), [])"
  using assms by (simp add: application_handle_def on_error_def)

text \<open>
  Claim C4 as stated fails for an exception that is no \<open>Exception\<close>: the cancellation
  raised by the operation behind \<open>/cancel\<close> escapes \<open>Application.handle\<close>.
\<close>

theorem non_exception_escapes_counterexample:
  "application_handle example_ext example_app (example_request\<lparr>path := ''/cancel''\<rparr>)
     = (example_request\<lparr>path := ''cancel''\<rparr>, Inl (Exn CancelledError [] None), [])"
  by (simp add: application_handle_def handle_def dispatch_handler_def dispatch_def
        resolve_operation_def invoke_def call_operation_def authorize_def
        example_app_def example_request_def example_root_def startswith_def segments_of_def
        subordinate_def resource_with_def operation_returning_def lower_def lower_char_def)

text \<open>
  Claim C4, as amended. When the chain raises an exception outside the error taxonomy:
  if it derives from \<open>Exception\<close> and has a first argument, \<open>Application.handle\<close> wraps it
  as an \<open>InternalServerError\<close> whose cause it is, writes one log record at error severity
  with that first argument and the cause, and returns what the error handler returns
  for the \<open>InternalServerError\<close>; if it does not derive from \<open>Exception\<close>, it leaves
  \<open>Application.handle\<close> unchanged, and nothing is logged.
\<close>

theorem unexpected_exception_wrapped:
  assumes run: "handle \<lparr>filters = app_filters self, handler = dispatch_handler x self\<rparr> q
                  = (q', Inl ex, resumed)"
    and outside: "\<not> is_Error (cls ex)"
  shows "(is_Exception (cls ex) \<and> args ex = msg # rest \<longrightarrow>
            application_handle x self q =
              (case error_handler self (Exn InternalServerError [] (Some ex)) of
                 Inl e \<Rightarrow> (q', Inl e, [LogError msg ex])
               | Inr r \<Rightarrow> (q', Inr (Some r), [LogError msg ex])))
       \<and> (\<not> is_Exception (cls ex) \<longrightarrow> application_handle x self q = (q', Inl ex, []))"
  using run outside
  by (simp add: application_handle_def on_error_def)

theorem unexpected_exception_wrapped_witness:
  "application_handle example_ext example_app (example_request\<lparr>path := ''/fail''\<rparr>)
     = (example_request\<lparr>path := ''fail''\<rparr>,
        Inr (Some \<lparr>headers = [(''content-type'', ''application/json''), (''content-length'', ''9'')],
                   cookies = [],
                   body = Some \<lparr>chunks = [''error 500''],
                                content_type = ''application/octet-stream'',
                                content_length = Some 9\<rparr>,
                   status = 500\<rparr>),
        [LogError ''boom'' (Exn ValueError [''boom''] None)])"
proof -
  let ?q = "example_request\<lparr>path := ''/fail''\<rparr>"
  let ?ex = "Exn ValueError [''boom''] None"
  have run: "handle \<lparr>filters = app_filters example_app,
                      handler = dispatch_handler example_ext example_app\<rparr> ?q
               = (example_request\<lparr>path := ''fail''\<rparr>, Inl ?ex, [])"
    by (simp add: handle_def dispatch_handler_def dispatch_def
        resolve_operation_def invoke_def call_operation_def authorize_def
        example_app_def example_request_def example_root_def startswith_def segments_of_def
        subordinate_def resource_with_def operation_returning_def lower_def lower_char_def)
  have outside: "\<not> is_Error (cls ?ex)" by simp
  have s500: "str_nat 500 = ''500''"
    by (simp add: str_nat.simps digit_def)
  have s9: "str_nat (length ''error 500'') = ''9''"
    by (simp add: str_nat.simps digit_def)
  have eh: "error_handler example_app (Exn InternalServerError [] (Some ?ex)) =
      Inr \<lparr>headers = [(''content-type'', ''application/json''), (''content-length'', ''9'')],
                   cookies = [],
                   body = Some \<lparr>chunks = [''error 500''],
                                content_type = ''application/octet-stream'',
                                content_length = Some 9\<rparr>,
                   status = 500\<rparr>"
    using s9 by (simp add: example_app_def handle_error_def example_ext_def Response_def
          cimultidict_setitem_def BytesStream_def s500 Let_def lower_def)
  from unexpected_exception_wrapped[where x = example_ext and self = example_app
          and msg = "''boom''" and rest = "[]", OF run outside]
  show ?thesis by (simp add: eh)
qed

section \<open>Properties of parameter binding and of the response\<close>

lemma bind_params_append:
  "bind_params x sig pre q p = (q1, Inr p1) \<Longrightarrow>
   bind_params x sig (pre @ rest) q p = bind_params x sig rest q1 p1"
  by (induction x sig pre q p rule: bind_params.induct)
     (auto split: prod.splits sum.splits option.splits if_splits)

lemma bind_params_other:
  "bind_params x sig hs q p = (q', Inr p') \<Longrightarrow> name \<notin> fst ` set hs \<Longrightarrow> p' name = p name"
  by (induction x sig hs q p rule: bind_params.induct)
     (auto split: prod.splits sum.splits option.splits if_splits)

lemma set_body_status:
  "status (set_body s) = (if content_length s = Some 0 then 204 else 200)"
  by (simp add: set_body_def Response_def Let_def split: option.splits)

lemma set_body_body: "body (set_body s) = Some s"
  by (simp add: set_body_def Response_def Let_def split: option.splits)

lemma respond_set_body: "respond x rh v = Inr r \<Longrightarrow> \<exists>s. r = set_body s"
  by (auto simp: respond_def split: option.splits sum.splits if_splits val.splits)

lemma invoke_set_body: "invoke x op q = (q', Inr r) \<Longrightarrow> \<exists>s. r = set_body s"
  by (auto simp: invoke_def split: prod.splits sum.splits dest: respond_set_body)

lemma dispatch_set_body: "dispatch x self q = (q', Inr r) \<Longrightarrow> \<exists>s. r = set_body s"
  by (auto simp: dispatch_def split: prod.splits sum.splits dest: invoke_set_body)

text \<open>
  Claim C9. In every response that dispatch returns, the status is 204 when the known
  content length of the body is zero, and the default 200 otherwise, whatever the
  operation and its declared return type are.
\<close>

theorem empty_body_no_content:
  assumes "dispatch x self q = (q', Inr r)" and "body r = Some s"
  shows "status r = (if content_length s = Some 0 then 204 else 200)"
proof -
  from dispatch_set_body[OF assms(1)] obtain s' where r: "r = set_body s'" by blast
  with assms(2) have "s' = s" by (simp add: set_body_body)
  with r show ?thesis by (simp add: set_body_status)
qed


theorem empty_body_no_content_witness:
  "dispatch example_ext example_app (example_request\<lparr>path := ''/empty''\<rparr>)
     = (example_request\<lparr>path := ''empty''\<rparr>,
        Inr \<lparr>headers = [(''Content-Type'', ''text/plain'')], cookies = [],
             body = Some \<lparr>chunks = [[]], content_type = ''text/plain'', content_length = Some 0\<rparr>,
             status = 204\<rparr>)
   \<and> dispatch example_ext example_app (example_request\<lparr>path := ''/blank''\<rparr>)
     = (example_request\<lparr>path := ''blank''\<rparr>,
        Inr \<lparr>headers = [(''Content-Type'', ''text/csv'')], cookies = [],
             body = Some empty_stream, status = 204\<rparr>)"
proof -
  let ?s1 = "\<lparr>chunks = [[]], content_type = ''text/plain'', content_length = Some 0\<rparr>"
  let ?r1 = "set_body ?s1"
  let ?r2 = "set_body empty_stream"
  have d1: "dispatch example_ext example_app (example_request\<lparr>path := ''/empty''\<rparr>)
              = (example_request\<lparr>path := ''empty''\<rparr>, Inr ?r1)"
    by (simp add: dispatch_def resolve_operation_def invoke_def call_operation_def authorize_def
        example_app_def example_request_def example_root_def startswith_def segments_of_def
        subordinate_def resource_with_def operation_returning_def lower_def lower_char_def
        respond_def return_hint_def example_ext_def BytesStream_def)
  have d2: "dispatch example_ext example_app (example_request\<lparr>path := ''/blank''\<rparr>)
              = (example_request\<lparr>path := ''blank''\<rparr>, Inr ?r2)"
    by (simp add: dispatch_def resolve_operation_def invoke_def call_operation_def authorize_def
        example_app_def example_request_def example_root_def startswith_def segments_of_def
        subordinate_def resource_with_def operation_returning_def lower_def lower_char_def
        respond_def return_hint_def example_ext_def)
  have b1: "body ?r1 = Some ?s1" by (simp add: set_body_body)
  have b2: "body ?r2 = Some empty_stream" by (simp add: set_body_body)
  have st1: "status ?r1 = 204"
    using empty_body_no_content[OF d1 b1] by simp
  have st2: "status ?r2 = 204"
    using empty_body_no_content[OF d2 b2] by (simp add: empty_stream_def)
  have e1: "?r1 = \<lparr>headers = [(''Content-Type'', ''text/plain'')], cookies = [],
             body = Some ?s1, status = 204\<rparr>"
    using st1 by (simp add: set_body_def Response_def cimultidict_setitem_def Let_def)
  have e2: "?r2 = \<lparr>headers = [(''Content-Type'', ''text/csv'')], cookies = [],
             body = Some empty_stream, status = 204\<rparr>"
    using st2 by (simp add: set_body_def Response_def cimultidict_setitem_def Let_def empty_stream_def)
  from d1 d2 e1 e2 show ?thesis by simp
qed

lemma bind_params_absent_step:
  assumes name: "name \<noteq> ''return''"
    and absent: "param_in_get x (snd (resolve_hint name h)) (fst (resolve_hint name h)) q1
                   = (q2, Inr NoneV)"
  shows "bind_params x sig ((name, h) # post) q1 params1 =
           (case map_of sig name of
              None \<Rightarrow> (q2, Inl (Exn KeyError [name] None))
            | Some d \<Rightarrow>
                (if d = Empty \<and> \<not> is_optional x (fst (resolve_hint name h)) then
                   (q2, Inl (Exn BadRequestError
                               [''expecting value in ''
                                  @ str_param_in (snd (resolve_hint name h))] None))
                 else bind_params x sig post q2 (params1(name \<mapsto> NoneV))))"
  using name absent by simp

text \<open>
  Claim C8, as amended. When dispatch resolves to an operation, the parameters before
  \<open>name\<close> bind, the source of \<open>name\<close> gives no value, and \<open>name\<close> has neither a default nor
  an optional type, dispatch fails with a \<open>BadRequestError\<close> whose message is
  \<open>expecting value in\<close> followed by the source annotation as a string (description and
  key for a query, header or cookie source, \<open>request body\<close> for the body). The outcome
  is the same whatever the body and the security requirements of the operation are: the
  operation is not invoked.
\<close>

theorem missing_required_parameter:
  assumes res: "resolve_operation self q = (q0, Inr op)"
    and hints: "op_hints op = pre @ (name, h) # post"
    and name: "name \<noteq> ''return''"
    and before: "bind_params x (op_signature op) pre q0 Map.empty = (q1, Inr params1)"
    and absent: "param_in_get x (snd (resolve_hint name h)) (fst (resolve_hint name h)) q1
                   = (q2, Inr NoneV)"
    and nodefault: "map_of (op_signature op) name = Some Empty"
    and notopt: "\<not> is_optional x (fst (resolve_hint name h))"
  shows "dispatch x self q =
           (q2, Inl (Exn BadRequestError
                       [''expecting value in '' @ str_param_in (snd (resolve_hint name h))] None))
       \<and> invoke x (op\<lparr>op_body := b, op_security := s\<rparr>) q0 = invoke x op q0"
proof -
  have bp: "bind_params x (op_signature op) (op_hints op) q0 Map.empty =
           (q2, Inl (Exn BadRequestError
                       [''expecting value in '' @ str_param_in (snd (resolve_hint name h))] None))"
    unfolding hints bind_params_append[OF before]
    using bind_params_absent_step[OF name absent, of "op_signature op" post params1]
      nodefault notopt by simp
  have inv: "invoke x op q0 =
           (q2, Inl (Exn BadRequestError
                       [''expecting value in '' @ str_param_in (snd (resolve_hint name h))] None))"
    by (simp add: invoke_def bp)
  have inv': "invoke x (op\<lparr>op_body := b, op_security := s\<rparr>) q0 =
           (q2, Inl (Exn BadRequestError
                       [''expecting value in '' @ str_param_in (snd (resolve_hint name h))] None))"
    by (simp add: invoke_def bp)
  from res inv inv' show ?thesis by (simp add: dispatch_def)
qed

text \<open>
  Claim C8 as stated fails for a body parameter: for the required parameter \<open>item\<close> of
  the operation behind \<open>/upload\<close> the message is \<open>expecting value in request body\<close>, which
  does not name the parameter.
\<close>

theorem body_parameter_message_counterexample:
  "snd (dispatch example_ext example_app
          (example_request\<lparr>req_method := ''POST'', path := ''/upload''\<rparr>))
     = Inl (Exn BadRequestError [''expecting value in request body''] None)
   \<and> \<not> occurs_in ''item'' ''expecting value in request body''"
  by (simp add: dispatch_def resolve_operation_def invoke_def
        example_app_def example_request_def example_root_def startswith_def segments_of_def
        subordinate_def resource_with_def upload_operation_def lower_def lower_char_def
        example_ext_def)

theorem missing_required_parameter_witness:
  "dispatch example_ext example_app (example_request\<lparr>path := ''/search''\<rparr>)
     = (example_request\<lparr>path := ''search''\<rparr>,
        Inl (Exn BadRequestError [''expecting value in query parameter: q''] None))"
proof -
  let ?q = "example_request\<lparr>path := ''/search''\<rparr>"
  let ?stripped = "example_request\<lparr>path := ''search''\<rparr>"
  have res: "resolve_operation example_app ?q = (?stripped, Inr search_operation)"
    by (simp add: resolve_operation_def
        example_app_def example_request_def example_root_def startswith_def segments_of_def
        subordinate_def resource_with_def lower_def lower_char_def)
  have hints: "op_hints search_operation =
      [(''limit'', Type ''int'')] @ (''q'', Type ''str'') # [(''return'', Type ''str'')]"
    by (simp add: search_operation_def)
  have name: "''q'' \<noteq> ''return''" by simp
  have before: "bind_params example_ext (op_signature search_operation) [(''limit'', Type ''int'')]
                  ?stripped Map.empty = (?stripped, Inr [''limit'' \<mapsto> NoneV])"
    by (simp add: search_operation_def InQuery_def request_attr_get_def multidict_get_def
          example_request_def example_ext_def)
  have absent: "param_in_get example_ext (snd (resolve_hint ''q'' (Type ''str'')))
                  (fst (resolve_hint ''q'' (Type ''str''))) ?stripped = (?stripped, Inr NoneV)"
    by (simp add: InQuery_def request_attr_get_def multidict_get_def example_request_def)
  have nodefault: "map_of (op_signature search_operation) ''q'' = Some Empty"
    by (simp add: search_operation_def)
  have notopt: "\<not> is_optional example_ext (fst (resolve_hint ''q'' (Type ''str'')))"
    by (simp add: example_ext_def)
  from missing_required_parameter[where x = example_ext and self = example_app
         and b = "\<lambda>params. Inr NoneV" and s = None,
         OF res hints name before absent nodefault notopt]
  show ?thesis by (simp add: InQuery_def)
qed

text \<open>
  Claim C10. When a parameter \<open>name\<close> declares a default \<open>d\<close> and its source gives no
  value, the loop goes on with \<open>name\<close> bound to \<open>None\<close>; when every parameter binds, the
  dictionary passed to the operation holds \<open>None\<close> under \<open>name\<close>, and the call of the
  operation with that dictionary decides the outcome. The default \<open>d\<close> appears nowhere
  in the outcome.
\<close>

theorem declared_default_never_used:
  assumes hints: "op_hints op = pre @ (name, h) # post"
    and names: "distinct (map fst (op_hints op))"
    and name: "name \<noteq> ''return''"
    and before: "bind_params x (op_signature op) pre q0 Map.empty = (q1, Inr params1)"
    and absent: "param_in_get x (snd (resolve_hint name h)) (fst (resolve_hint name h)) q1
                   = (q2, Inr NoneV)"
    and dflt: "map_of (op_signature op) name = Some (Default d)"
    and all: "bind_params x (op_signature op) (op_hints op) q0 Map.empty = (q3, Inr params)"
  shows "bind_params x (op_signature op) (op_hints op) q0 Map.empty =
           bind_params x (op_signature op) post q2 (params1(name \<mapsto> NoneV))
       \<and> params name = Some NoneV
       \<and> invoke x op q0 =
           (case call_operation op params of
              Inl e \<Rightarrow> (q3, Inl e)
            | Inr result \<Rightarrow> (q3, respond x (return_hint op) result))"
proof -
  have step: "bind_params x (op_signature op) (op_hints op) q0 Map.empty =
           bind_params x (op_signature op) post q2 (params1(name \<mapsto> NoneV))"
    unfolding hints bind_params_append[OF before]
    using bind_params_absent_step[OF name absent, of "op_signature op" post params1] dflt
    by simp
  with all have post: "bind_params x (op_signature op) post q2 (params1(name \<mapsto> NoneV))
                         = (q3, Inr params)" by simp
  from names hints have "name \<notin> fst ` set post" by auto
  from bind_params_other[OF post this] have bound: "params name = Some NoneV" by simp
  have inv: "invoke x op q0 =
           (case call_operation op params of
              Inl e \<Rightarrow> (q3, Inl e)
            | Inr result \<Rightarrow> (q3, respond x (return_hint op) result))"
    by (simp add: invoke_def all)
  from step bound inv show ?thesis by blast
qed

theorem declared_default_never_used_witness:
  "dispatch example_ext example_app
     (example_request\<lparr>path := ''/search'', query := [(''q'', ''fondat'')]\<rparr>)
     = (example_request\<lparr>path := ''search'', query := [(''q'', ''fondat'')]\<rparr>,
        Inr \<lparr>headers = [(''Content-Type'', ''text/plain''), (''Content-Length'', ''13'')],
             cookies = [],
             body = Some \<lparr>chunks = [''limit is None''], content_type = ''text/plain'',
                          content_length = Some 13\<rparr>,
             status = 200\<rparr>)
   \<and> [''limit'' \<mapsto> NoneV, ''q'' \<mapsto> StrV ''fondat''] ''limit'' = Some NoneV"
proof -
  let ?q = "example_request\<lparr>path := ''/search'', query := [(''q'', ''fondat'')]\<rparr>"
  let ?stripped = "example_request\<lparr>path := ''search'', query := [(''q'', ''fondat'')]\<rparr>"
  let ?params = "[''limit'' \<mapsto> NoneV, ''q'' \<mapsto> StrV ''fondat'']"
  have res: "resolve_operation example_app ?q = (?stripped, Inr search_operation)"
    by (simp add: resolve_operation_def
        example_app_def example_request_def example_root_def startswith_def segments_of_def
        subordinate_def resource_with_def lower_def lower_char_def)
  have hints: "op_hints search_operation =
      [] @ (''limit'', Type ''int'') # [(''q'', Type ''str''), (''return'', Type ''str'')]"
    by (simp add: search_operation_def)
  have names: "distinct (map fst (op_hints search_operation))"
    by (simp add: search_operation_def)
  have name: "''limit'' \<noteq> ''return''" by simp
  have before: "bind_params example_ext (op_signature search_operation) [] ?stripped Map.empty
                  = (?stripped, Inr Map.empty)"
    by simp
  have absent: "param_in_get example_ext (snd (resolve_hint ''limit'' (Type ''int'')))
                  (fst (resolve_hint ''limit'' (Type ''int''))) ?stripped = (?stripped, Inr NoneV)"
    by (simp add: InQuery_def request_attr_get_def multidict_get_def example_request_def)
  have dflt: "map_of (op_signature search_operation) ''limit'' = Some (Default (IntV 10))"
    by (simp add: search_operation_def)
  have all: "bind_params example_ext (op_signature search_operation) (op_hints search_operation)
               ?stripped Map.empty = (?stripped, Inr ?params)"
    by (simp add: search_operation_def InQuery_def request_attr_get_def multidict_get_def
          example_request_def example_ext_def)
  note t = declared_default_never_used[where x = example_ext, OF hints names name before absent dflt all]
  have bound: "?params ''limit'' = Some NoneV"
    by (rule t[THEN conjunct2, THEN conjunct1])
  have inv: "invoke example_ext search_operation ?stripped =
           (case call_operation search_operation ?params of
              Inl e \<Rightarrow> (?stripped, Inl e)
            | Inr result \<Rightarrow> (?stripped, respond example_ext (return_hint search_operation) result))"
    by (rule t[THEN conjunct2, THEN conjunct2])
  have call: "call_operation search_operation ?params = Inr (StrV ''limit is None'')"
    by (simp add: call_operation_def authorize_def search_operation_def)
  have s13: "str_nat (length ''limit is None'') = ''13''"
    by (simp add: str_nat.simps digit_def)
  have resp: "respond example_ext (return_hint search_operation) (StrV ''limit is None'') =
        Inr \<lparr>headers = [(''Content-Type'', ''text/plain''), (''Content-Length'', ''13'')],
             cookies = [],
             body = Some \<lparr>chunks = [''limit is None''], content_type = ''text/plain'',
                          content_length = Some 13\<rparr>,
             status = 200\<rparr>"
    using s13
    by (simp add: respond_def return_hint_def search_operation_def example_ext_def
          BytesStream_def set_body_def Response_def cimultidict_setitem_def Let_def lower_def
          lower_char_def)
  have d: "dispatch example_ext example_app ?q = invoke example_ext search_operation ?stripped"
    by (simp add: dispatch_def res)
  from d inv call resp bound show ?thesis by simp
qed

end
